theory Spec2Isabelle
  imports Complex_Main
begin

section \<open>Shared runtime model\<close>

text \<open>
  A thrown JavaScript value. The code only ever inspects \<^verbatim>\<open>error?.status\<close>
  (in \<^verbatim>\<open>withRetry\<close>) and the message text (in the claim simulation), so an
  error is its optional numeric status and its message.
\<close>

datatype js_error = JsError (status: "int option") (message: string)

text \<open>
  The asynchronous calls of the routes run against an outside world (the
  ledger, the identity service, the network, the timer). A remote operation
  takes the world and returns either the thrown error (\<open>Inl\<close>) or the value
  (\<open>Inr\<close>) together with the world afterwards. The runtime keeps, beside the
  world, a trace of what the handler did: each invocation of a remote
  operation with its label and the error it threw (\<open>None\<close> when it returned),
  and each delay the handler waited for.
\<close>

type_synonym ('w, 'a) remote_op = "'w \<Rightarrow> (js_error + 'a) \<times> 'w"

datatype 'c event = is_Invoked: Invoked 'c "js_error option" | Slept int

record ('w, 'c) rt =
  world :: 'w
  trace :: "'c event list"

definition invoke :: "'c \<Rightarrow> ('w, 'a) remote_op \<Rightarrow> ('w, 'c) rt \<Rightarrow> (js_error + 'a) \<times> ('w, 'c) rt" where
  "invoke tag fn r =
     (case fn (world r) of
        (Inl error, w') \<Rightarrow> (Inl error, \<lparr>world = w', trace = trace r @ [Invoked tag (Some error)]\<rparr>)
      | (Inr v, w') \<Rightarrow> (Inr v, \<lparr>world = w', trace = trace r @ [Invoked tag None]\<rparr>))"

text \<open>
  \<^verbatim>\<open>await new Promise((resolve) => setTimeout(resolve, delay))\<close>: the timer is
  part of the outside world (\<open>wait\<close> gives the world after the delay).
\<close>

definition sleep :: "(int \<Rightarrow> 'w \<Rightarrow> 'w) \<Rightarrow> int \<Rightarrow> ('w, 'c) rt \<Rightarrow> ('w, 'c) rt" where
  "sleep wait delay r = \<lparr>world = wait delay (world r), trace = trace r @ [Slept delay]\<rparr>"

section \<open>The leaderboard route: \<^verbatim>\<open>withRetry\<close>\<close>

text \<open>
  \<^verbatim>\<open>let delay = baseDelay * Math.pow(2, i);
  if (error?.status === 429) { delay = Math.max(delay, 10000); }\<close>
  JavaScript numbers are modelled as integers (exact below \<open>2^53\<close>).
\<close>

definition retryDelay :: "int \<Rightarrow> nat \<Rightarrow> js_error \<Rightarrow> int" where
  "retryDelay baseDelay i error =
     (let delay = baseDelay * 2 ^ i
      in if status error = Some 429 then max delay 10000 else delay)"

text \<open>
  The loop \<^verbatim>\<open>for (let i = 0; i < retries; i++)\<close> of \<^verbatim>\<open>withRetry\<close>, entered at
  index \<open>i\<close>. The label \<open>tag\<close> only names the operation in the trace.
\<close>

function withRetry_from ::
  "nat \<Rightarrow> (int \<Rightarrow> 'w \<Rightarrow> 'w) \<Rightarrow> 'c \<Rightarrow> ('w, 'a) remote_op \<Rightarrow> nat \<Rightarrow> int \<Rightarrow> ('w, 'c) rt
     \<Rightarrow> (js_error + 'a) \<times> ('w, 'c) rt" where
  "withRetry_from i wait tag fn retries baseDelay r =
     (if i < retries then
        (case invoke tag fn r of
           (Inr v, r') \<Rightarrow> (Inr v, r')
         | (Inl error, r') \<Rightarrow>
             if Suc i = retries then (Inl error, r')
             else withRetry_from (Suc i) wait tag fn retries baseDelay
                    (sleep wait (retryDelay baseDelay i error) r'))
      else (Inl (JsError None ''Max retries reached''), r))"
  by pat_completeness auto
termination
  by (relation "measure (\<lambda>(i, wait, tag, fn, retries, baseDelay, r). retries - i)") auto

declare withRetry_from.simps [simp del]

definition withRetry ::
  "(int \<Rightarrow> 'w \<Rightarrow> 'w) \<Rightarrow> 'c \<Rightarrow> ('w, 'a) remote_op \<Rightarrow> nat \<Rightarrow> int \<Rightarrow> ('w, 'c) rt
     \<Rightarrow> (js_error + 'a) \<times> ('w, 'c) rt" where
  "withRetry wait tag fn retries baseDelay r = withRetry_from 0 wait tag fn retries baseDelay r"

text \<open>The default arguments \<^verbatim>\<open>retries = 3, baseDelay = 2000\<close>.\<close>

definition withRetry3 ::
  "(int \<Rightarrow> 'w \<Rightarrow> 'w) \<Rightarrow> 'c \<Rightarrow> ('w, 'a) remote_op \<Rightarrow> ('w, 'c) rt \<Rightarrow> (js_error + 'a) \<times> ('w, 'c) rt" where
  "withRetry3 wait tag fn r = withRetry wait tag fn 3 2000 r"

text \<open>
  What the trace of a run with failed attempts \<open>errs\<close> (the first of them being
  attempt number \<open>i\<close>) looks like when each failure is followed by its backoff
  delay.
\<close>

fun backoff_events :: "'c \<Rightarrow> int \<Rightarrow> nat \<Rightarrow> js_error list \<Rightarrow> 'c event list" where
  "backoff_events tag d i [] = []"
| "backoff_events tag d i (e # es) =
     Invoked tag (Some e)
       # Slept (if status e = Some 429 then max (d * 2 ^ i) 10000 else d * 2 ^ i)
       # backoff_events tag d (Suc i) es"

section \<open>The leaderboard route: data and pure steps\<close>

text \<open>\<^verbatim>\<open>const PAGE_SIZE = 100; // Users per contract call\<close>\<close>

definition PAGE_SIZE :: nat where
  "PAGE_SIZE = 100"

text \<open>
  \<^verbatim>\<open>String.prototype.toLowerCase\<close> on the ASCII strings the route handles (wallet
  addresses, error messages).
\<close>

definition lower_char :: "char \<Rightarrow> char" where
  "lower_char c =
     (let n = (of_char c :: nat) in if 65 \<le> n \<and> n \<le> 90 then char_of (n + 32) else c)"

definition toLowerCase :: "string \<Rightarrow> string" where
  "toLowerCase s = map lower_char s"

text \<open>
  An entry of \<^verbatim>\<open>entriesV1\<close> and \<^verbatim>\<open>entriesV2\<close>:
  \<^verbatim>\<open>{ user: Address; totalWinnings: bigint; voteCount: number }\<close>.
\<close>

record ChainEntry =
  user :: string
  totalWinnings :: int
  voteCount :: int

text \<open>
  \<^verbatim>\<open>combinedEntries\<close> is a JavaScript \<^verbatim>\<open>Map\<close>: it keeps its keys in insertion order,
  and \<^verbatim>\<open>set\<close> on a key that is present replaces the value in place.
\<close>

type_synonym ('k, 'v) js_map = "('k \<times> 'v) list"

fun Map_get :: "('k, 'v) js_map \<Rightarrow> 'k \<Rightarrow> 'v option" where
  "Map_get [] k = None"
| "Map_get ((k', v) # m) k = (if k' = k then Some v else Map_get m k)"

fun Map_set :: "'k \<Rightarrow> 'v \<Rightarrow> ('k, 'v) js_map \<Rightarrow> ('k, 'v) js_map" where
  "Map_set k v [] = [(k, v)]"
| "Map_set k v ((k', v') # m) = (if k' = k then (k, v) # m else (k', v') # Map_set k v m)"

definition Map_values :: "('k, 'v) js_map \<Rightarrow> 'v list" where
  "Map_values m = map snd m"

text \<open>\<^verbatim>\<open>entriesV1.forEach(...)\<close>: every generation-1 entry is stored under its
  lower-cased address.\<close>

definition addV1 :: "(string, ChainEntry) js_map \<Rightarrow> ChainEntry \<Rightarrow> (string, ChainEntry) js_map" where
  "addV1 combinedEntries entry =
     (let addr = toLowerCase (user entry)
      in Map_set addr
           \<lparr>user = user entry, totalWinnings = totalWinnings entry, voteCount = voteCount entry\<rparr>
           combinedEntries)"

text \<open>\<^verbatim>\<open>entriesV2.forEach(...)\<close>: a generation-2 entry is added to the entry
  already stored under its lower-cased address, or stored as it is.\<close>

definition addV2 :: "(string, ChainEntry) js_map \<Rightarrow> ChainEntry \<Rightarrow> (string, ChainEntry) js_map" where
  "addV2 combinedEntries entry =
     (let addr = toLowerCase (user entry)
      in case Map_get combinedEntries addr of
           Some existing \<Rightarrow>
             Map_set addr
               \<lparr>user = user entry,
                totalWinnings = totalWinnings existing + totalWinnings entry,
                voteCount = voteCount existing + voteCount entry\<rparr>
               combinedEntries
         | None \<Rightarrow>
             Map_set addr
               \<lparr>user = user entry, totalWinnings = totalWinnings entry, voteCount = voteCount entry\<rparr>
               combinedEntries)"

definition combineEntries :: "ChainEntry list \<Rightarrow> ChainEntry list \<Rightarrow> (string, ChainEntry) js_map" where
  "combineEntries entriesV1 entriesV2 = foldl addV2 (foldl addV1 [] entriesV1) entriesV2"

text \<open>
  \<^verbatim>\<open>{ address, winnings, voteCount }\<close> of \<^verbatim>\<open>winners\<close>. The display amount
  \<^verbatim>\<open>Number(entry.totalWinnings) / Math.pow(10, tokenDecimals)\<close> is computed by the
  runtime in double precision: \<^verbatim>\<open>Number\<close> rounds the \<^verbatim>\<open>bigint\<close> to the nearest
  double, and the quotient by the double \<^verbatim>\<open>Math.pow(10, tokenDecimals)\<close> is
  rounded again. It need not be the exact quotient, and for amounts above
  \<open>2 ^ 53\<close> two different amounts may get the same display amount. The model takes
  this arithmetic from the runtime, as the function \<open>numberOverPow10\<close> that gives
  the double computed for an amount and a count of decimals (a finite double,
  so a real number, for the 256-bit amounts and 8-bit decimals of the
  contracts), and assumes nothing about it.
\<close>

record Winner =
  winner_address :: string
  winner_winnings :: real
  winner_voteCount :: int

definition winnersOf ::
  "(int \<Rightarrow> nat \<Rightarrow> real) \<Rightarrow> nat \<Rightarrow> (string, ChainEntry) js_map \<Rightarrow> Winner list" where
  "winnersOf numberOverPow10 tokenDecimals combinedEntries =
     map (\<lambda>entry.
            \<lparr>winner_address = toLowerCase (user entry),
             winner_winnings = numberOverPow10 (totalWinnings entry) tokenDecimals,
             winner_voteCount = voteCount entry\<rparr>)
       (filter (\<lambda>entry. totalWinnings entry > 0) (Map_values combinedEntries))"

text \<open>The identity service's users: \<^verbatim>\<open>NeynarRawUser\<close> as received and
  \<^verbatim>\<open>NeynarUser\<close> as kept.\<close>

datatype NeynarRawUser = NeynarRawUser (raw_username: string) (raw_fid: nat) (raw_pfp_url: "string option")

datatype NeynarUser = NeynarUser (nu_username: string) (nu_fid: string) (nu_pfp_url: "string option")

definition digit_char :: "nat \<Rightarrow> char" where
  "digit_char n = char_of (48 + n)"

text \<open>\<^verbatim>\<open>user.fid.toString()\<close> of a non-negative integer.\<close>

fun toString :: "nat \<Rightarrow> string" where
  "toString n = (if n < 10 then [digit_char n] else toString (n div 10) @ [digit_char (n mod 10)])"

declare toString.simps [simp del]

text \<open>\<^verbatim>\<open>s || null\<close> on an optional string: the empty string is falsy.\<close>

definition or_null :: "string option \<Rightarrow> string option" where
  "or_null s = (case s of None \<Rightarrow> None | Some t \<Rightarrow> if t = [] then None else Some t)"

definition toNeynarUser :: "NeynarRawUser \<Rightarrow> NeynarUser" where
  "toNeynarUser u = NeynarUser (raw_username u) (toString (raw_fid u)) (or_null (raw_pfp_url u))"

record LeaderboardEntry =
  username :: string
  fid :: string
  pfp_url :: "string option"
  winnings :: real
  entry_voteCount :: int
  address :: string

text \<open>The body of \<^verbatim>\<open>winners.map((winner) => ...)\<close> that builds an entry.\<close>

definition buildEntry :: "(string \<rightharpoonup> NeynarUser list) \<Rightarrow> Winner \<Rightarrow> LeaderboardEntry" where
  "buildEntry addressToUsersMap winner =
     (let usersForAddress = addressToUsersMap (winner_address winner);
          user = (case usersForAddress of
                    None \<Rightarrow> None
                  | Some us \<Rightarrow> (case us of [] \<Rightarrow> None | u # _ \<Rightarrow> Some u));
          a = winner_address winner
      in \<lparr>username =
             (case user of
                Some u \<Rightarrow> if nu_username u \<noteq> [] then nu_username u
                          else take 6 a @ ''...'' @ drop (length a - 4) a
              | None \<Rightarrow> take 6 a @ ''...'' @ drop (length a - 4) a),
           fid = (case user of Some u \<Rightarrow> if nu_fid u \<noteq> [] then nu_fid u else ''nil'' | None \<Rightarrow> ''nil''),
           pfp_url = (case user of Some u \<Rightarrow> or_null (nu_pfp_url u) | None \<Rightarrow> None),
           winnings = winner_winnings winner,
           entry_voteCount = winner_voteCount winner,
           address = winner_address winner\<rparr>)"

text \<open>
  \<^verbatim>\<open>.sort((a, b) => b.winnings - a.winnings).slice(0, 10)\<close>: the sort of
  \<^verbatim>\<open>Array.prototype.sort\<close> is stable; \<open>sort_key\<close> is the stable insertion sort.
\<close>

definition buildLeaderboard :: "(string \<rightharpoonup> NeynarUser list) \<Rightarrow> Winner list \<Rightarrow> LeaderboardEntry list" where
  "buildLeaderboard addressToUsersMap winners =
     take 10 (sort_key (\<lambda>e. - winnings e) (map (buildEntry addressToUsersMap) winners))"

text \<open>
  \<^verbatim>\<open>JSON.parse(JSON.stringify(leaderboard, (key, value) => typeof value === "bigint" ? Number(value) : value))\<close>:
  an entry holds strings, numbers and \<^verbatim>\<open>null\<close> only, no \<^verbatim>\<open>bigint\<close>, so the
  round trip returns an equal list.
\<close>

definition safeJson :: "LeaderboardEntry list \<Rightarrow> LeaderboardEntry list" where
  "safeJson leaderboard = map (\<lambda>e. e) leaderboard"

section \<open>The leaderboard route: cache\<close>

text \<open>
  \<^verbatim>\<open>const cache = new NodeCache({ stdTTL: 3600, checkperiod: 120 })\<close>. The route
  uses the cache under two constant keys, \<^verbatim>\<open>CACHE_KEY = "leaderboard_v7"\<close> and
  \<^verbatim>\<open>NEYNAR_CACHE_KEY = "neynar_users_v7"\<close>, each with its own type of value, so
  the cache is a record of two slots. A slot is empty or holds the value and
  its expiry time \<open>t\<close> in milliseconds (\<open>0\<close>: never expires), as node-cache
  stores it.

  node-cache's \<^verbatim>\<open>get\<close> returns \<^verbatim>\<open>undefined\<close> for a key that is absent or whose
  expiry time has passed (\<^verbatim>\<open>data.t !== 0 && data.t < Date.now()\<close>), and deletes
  the expired key (\<^verbatim>\<open>deleteOnExpire\<close> is on by default). Its \<^verbatim>\<open>set\<close> stores the
  value with expiry \<^verbatim>\<open>Date.now() + ttl * 1000\<close>, the \<^verbatim>\<open>ttl\<close> defaulting to
  \<^verbatim>\<open>stdTTL\<close>, and a \<^verbatim>\<open>ttl\<close> of 0 meaning no expiry.
\<close>

type_synonym 'v slot = "('v \<times> nat) option"

definition stdTTL :: nat where
  "stdTTL = 3600"

definition NodeCache_get :: "nat \<Rightarrow> 'v slot \<Rightarrow> 'v option \<times> 'v slot" where
  "NodeCache_get now s =
     (case s of
        None \<Rightarrow> (None, None)
      | Some (v, t) \<Rightarrow> if t \<noteq> 0 \<and> t < now then (None, None) else (Some v, Some (v, t)))"

definition NodeCache_set :: "nat \<Rightarrow> 'v \<Rightarrow> nat \<Rightarrow> 'v slot" where
  "NodeCache_set now v ttl = Some (v, if ttl = 0 then 0 else now + ttl * 1000)"

record NodeCache =
  leaderboard_v7 :: "LeaderboardEntry list slot"
  neynar_users_v7 :: "(string \<rightharpoonup> NeynarUser list) slot"

section \<open>The leaderboard route: remote reads\<close>

text \<open>The remote operations of the route, as they appear in the trace.\<close>

datatype call =
    Decimals
  | GetAllParticipantsCount
  | GetLeaderboard nat nat
  | AllParticipants nat
  | UserPortfolios string
  | FetchBulkUsers "string list"

text \<open>
  What the route takes from outside: the configured credential
  (\<^verbatim>\<open>process.env.NEYNAR_API_KEY\<close>), the clock (\<^verbatim>\<open>Date.now()\<close>, read by the cache),
  the timer, the reads of the two contracts through \<^verbatim>\<open>publicClient\<close> and the
  identity lookup, and the double arithmetic
  \<^verbatim>\<open>Number(x) / Math.pow(10, d)\<close> of the runtime. \<^verbatim>\<open>userPortfolios\<close> returns the tuple
  \<^verbatim>\<open>[totalInvested, totalWinnings, unrealizedPnL, realizedPnL, tradeCount]\<close>.
\<close>

record 'w leaderboard_env =
  NEYNAR_API_KEY :: "string option"
  numberOverPow10 :: "int \<Rightarrow> nat \<Rightarrow> real"
  now :: "'w \<Rightarrow> nat"
  setTimeout :: "int \<Rightarrow> 'w \<Rightarrow> 'w"
  decimals :: "('w, nat) remote_op"
  getAllParticipantsCount :: "('w, nat) remote_op"
  getLeaderboard :: "nat \<Rightarrow> nat \<Rightarrow> ('w, ChainEntry list) remote_op"
  allParticipants :: "nat \<Rightarrow> ('w, string) remote_op"
  userPortfolios :: "string \<Rightarrow> ('w, int \<times> int \<times> int \<times> int \<times> int) remote_op"
  fetchBulkUsersByEthOrSolAddress :: "string list \<Rightarrow> ('w, (string \<times> NeynarRawUser list) list) remote_op"

text \<open>
  The generation-1 loop
  \<^verbatim>\<open>for (let start = 0; start < Number(totalParticipantsV1); start += PAGE_SIZE)\<close>,
  entered at \<open>start\<close> with the entries read so far. A page read that fails
  after its retries throws out of the loop.
\<close>

function fetchV1_from ::
  "'w leaderboard_env \<Rightarrow> nat \<Rightarrow> nat \<Rightarrow> ChainEntry list \<Rightarrow> ('w, call) rt
     \<Rightarrow> (js_error + ChainEntry list) \<times> ('w, call) rt" where
  "fetchV1_from env totalParticipantsV1 start entriesV1 r =
     (if start < totalParticipantsV1 then
        (case withRetry3 (setTimeout env) (GetLeaderboard start PAGE_SIZE)
                (getLeaderboard env start PAGE_SIZE) r of
           (Inl error, r') \<Rightarrow> (Inl error, r')
         | (Inr batch, r') \<Rightarrow>
             fetchV1_from env totalParticipantsV1 (start + PAGE_SIZE) (entriesV1 @ batch) r')
      else (Inr entriesV1, r))"
  by pat_completeness auto
termination
  by (relation "measure (\<lambda>(env, totalParticipantsV1, start, entriesV1, r). totalParticipantsV1 - start)")
     (auto simp: PAGE_SIZE_def)

declare fetchV1_from.simps [simp del]

text \<open>
  The reads of one generation-2 batch,
  \<^verbatim>\<open>withRetry(() => ... "allParticipants", args: [BigInt(currentIndex)]).catch(() => null)\<close>
  for the offsets \<open>is\<close>. The promises of a batch run concurrently; the model
  runs them in index order. \<open>None\<close> is the \<^verbatim>\<open>null\<close> of a read that failed.
\<close>

fun batchPromises ::
  "'w leaderboard_env \<Rightarrow> nat \<Rightarrow> nat list \<Rightarrow> ('w, call) rt \<Rightarrow> string option list \<times> ('w, call) rt" where
  "batchPromises env v2ParticipantIndex [] r = ([], r)"
| "batchPromises env v2ParticipantIndex (i # is) r =
     (let currentIndex = v2ParticipantIndex + i
      in case withRetry3 (setTimeout env) (AllParticipants currentIndex)
                (allParticipants env currentIndex) r of
           (res, r1) \<Rightarrow>
             (case batchPromises env v2ParticipantIndex is r1 of
                (rest, r2) \<Rightarrow> ((case res of Inl _ \<Rightarrow> None | Inr a \<Rightarrow> Some a) # rest, r2)))"

text \<open>
  \<^verbatim>\<open>for (const participantAddress of batchResults)\<close>: a falsy address (the
  \<^verbatim>\<open>null\<close> of a failed read, or an empty string) ends the enumeration; the
  portfolio of every other address is read, a failed read being skipped. The
  first component is \<^verbatim>\<open>hasMoreParticipants\<close>.
\<close>

fun processBatch ::
  "'w leaderboard_env \<Rightarrow> string option list \<Rightarrow> ChainEntry list \<Rightarrow> ('w, call) rt
     \<Rightarrow> bool \<times> ChainEntry list \<times> ('w, call) rt" where
  "processBatch env [] entriesV2 r = (True, entriesV2, r)"
| "processBatch env (participantAddress # rest) entriesV2 r =
     (case participantAddress of
        None \<Rightarrow> (False, entriesV2, r)
      | Some a \<Rightarrow>
          if a = [] then (False, entriesV2, r)
          else
            (case withRetry3 (setTimeout env) (UserPortfolios a) (userPortfolios env a) r of
               (Inl portfolioError, r1) \<Rightarrow> processBatch env rest entriesV2 r1
             | (Inr (totalInvested, portfolio1, unrealizedPnL, realizedPnL, tradeCount), r1) \<Rightarrow>
                 processBatch env rest
                   (if portfolio1 > 0
                    then entriesV2 @ [\<lparr>user = a, totalWinnings = portfolio1, voteCount = tradeCount\<rparr>]
                    else entriesV2)
                   r1))"

text \<open>
  \<^verbatim>\<open>while (hasMoreParticipants && v2ParticipantIndex < 10000)\<close>. Every failure
  inside the loop is caught where it occurs (a participant read by
  \<^verbatim>\<open>.catch(() => null)\<close>, a portfolio read by its own \<^verbatim>\<open>try\<close>/\<^verbatim>\<open>catch\<close>), so
  nothing reaches the \<^verbatim>\<open>catch (v2Error)\<close> around the enumeration.
\<close>

function fetchV2_from ::
  "'w leaderboard_env \<Rightarrow> nat \<Rightarrow> ChainEntry list \<Rightarrow> ('w, call) rt \<Rightarrow> ChainEntry list \<times> ('w, call) rt" where
  "fetchV2_from env v2ParticipantIndex entriesV2 r =
     (if v2ParticipantIndex < 10000 then
        (case batchPromises env v2ParticipantIndex [0..<PAGE_SIZE] r of
           (batchResults, r1) \<Rightarrow>
             (case processBatch env batchResults entriesV2 r1 of
                (hasMoreParticipants, entriesV2', r2) \<Rightarrow>
                  if hasMoreParticipants
                  then fetchV2_from env (v2ParticipantIndex + PAGE_SIZE) entriesV2' r2
                  else (entriesV2', r2)))
      else (entriesV2, r))"
  by pat_completeness auto
termination
  by (relation "measure (\<lambda>(env, v2ParticipantIndex, entriesV2, r). 10000 - v2ParticipantIndex)")
     (auto simp: PAGE_SIZE_def)

declare fetchV2_from.simps [simp del]

text \<open>
  \<^verbatim>\<open>batchFetchNeynarUsers(neynar, addresses, batchSize = 25)\<close>, which the route
  only calls with the default batch size, its loop entered at \<open>i\<close>: a batch
  whose lookup fails after its retries is logged and skipped.
\<close>

definition batchSize :: nat where
  "batchSize = 25"

definition addUsers ::
  "(string \<rightharpoonup> NeynarUser list) \<Rightarrow> (string \<times> NeynarRawUser list) \<Rightarrow> (string \<rightharpoonup> NeynarUser list)" where
  "addUsers result entry = result(toLowerCase (fst entry) \<mapsto> map toNeynarUser (snd entry))"

function batchFetchNeynarUsers_from ::
  "'w leaderboard_env \<Rightarrow> string list \<Rightarrow> nat \<Rightarrow> (string \<rightharpoonup> NeynarUser list) \<Rightarrow> ('w, call) rt
     \<Rightarrow> (string \<rightharpoonup> NeynarUser list) \<times> ('w, call) rt" where
  "batchFetchNeynarUsers_from env addresses i result r =
     (if i < length addresses then
        (let batch = take batchSize (drop i addresses)
         in case withRetry3 (setTimeout env) (FetchBulkUsers batch)
                   (fetchBulkUsersByEthOrSolAddress env batch) r of
              (Inr usersMap, r') \<Rightarrow>
                batchFetchNeynarUsers_from env addresses (i + batchSize)
                  (foldl addUsers result usersMap) r'
            | (Inl error, r') \<Rightarrow>
                batchFetchNeynarUsers_from env addresses (i + batchSize) result r')
      else (result, r))"
  by pat_completeness auto
termination
  by (relation "measure (\<lambda>(env, addresses, i, result, r). length addresses - i)")
     (auto simp: batchSize_def)

declare batchFetchNeynarUsers_from.simps [simp del]

definition batchFetchNeynarUsers ::
  "'w leaderboard_env \<Rightarrow> string list \<Rightarrow> ('w, call) rt \<Rightarrow> (string \<rightharpoonup> NeynarUser list) \<times> ('w, call) rt" where
  "batchFetchNeynarUsers env addresses r = batchFetchNeynarUsers_from env addresses 0 Map.empty r"

section \<open>The leaderboard route: \<^verbatim>\<open>GET\<close>\<close>

datatype response =
    Json "LeaderboardEntry list"
  | ErrorJson (error_text: string) (details: "string option") (http_status: nat)

text \<open>
  The \<^verbatim>\<open>try\<close> block of \<^verbatim>\<open>GET\<close>. \<open>Inl\<close> is an exception thrown out of the block,
  \<open>Inr\<close> the response it returns.
\<close>

definition GET_try ::
  "'w leaderboard_env \<Rightarrow> NodeCache \<Rightarrow> ('w, call) rt \<Rightarrow> (js_error + response) \<times> NodeCache \<times> ('w, call) rt" where
  "GET_try env cache r =
     (if (case NEYNAR_API_KEY env of None \<Rightarrow> True | Some neynarApiKey \<Rightarrow> neynarApiKey = [])
      then (Inr (ErrorJson ''Server configuration error: Missing NEYNAR_API_KEY'' None 500), cache, r)
      else
       (case withRetry3 (setTimeout env) Decimals (decimals env) r of
          (Inl error, r1) \<Rightarrow> (Inl error, cache, r1)
        | (Inr tokenDecimals, r1) \<Rightarrow>
       (case withRetry3 (setTimeout env) GetAllParticipantsCount (getAllParticipantsCount env) r1 of
          (Inl error, r2) \<Rightarrow> (Inl error, cache, r2)
        | (Inr totalParticipantsV1, r2) \<Rightarrow>
       (case fetchV1_from env totalParticipantsV1 0 [] r2 of
          (Inl error, r3) \<Rightarrow> (Inl error, cache, r3)
        | (Inr entriesV1, r3) \<Rightarrow>
       (case fetchV2_from env 0 [] r3 of
          (entriesV2, r4) \<Rightarrow>
       (let combinedEntries = combineEntries entriesV1 entriesV2;
            winners = winnersOf (numberOverPow10 env) tokenDecimals combinedEntries
        in
       (case NodeCache_get (now env (world r4)) (neynar_users_v7 cache) of
          (cachedUsers, slot1) \<Rightarrow>
       (let neynarCache = (case cachedUsers of Some m \<Rightarrow> m | None \<Rightarrow> Map.empty);
            addressesToFetch = filter (\<lambda>addr. neynarCache addr = None) (map winner_address winners)
        in
       (case (if addressesToFetch \<noteq> []
              then (case batchFetchNeynarUsers env addressesToFetch r4 of
                      (newUsersMap, r5) \<Rightarrow>
                        (neynarCache ++ newUsersMap,
                         NodeCache_set (now env (world r5)) (neynarCache ++ newUsersMap) 86400,
                         r5))
              else (neynarCache, slot1, r4)) of
          (addressToUsersMap, slot2, r5) \<Rightarrow>
       (let leaderboard = buildLeaderboard addressToUsersMap winners;
            safeLeaderboard = safeJson leaderboard
        in (Inr (Json safeLeaderboard),
            \<lparr>leaderboard_v7 = NodeCache_set (now env (world r5)) safeLeaderboard stdTTL,
             neynar_users_v7 = slot2\<rparr>,
            r5)))))))))))"

text \<open>The \<^verbatim>\<open>catch\<close> block of \<^verbatim>\<open>GET\<close>.\<close>

definition GET_catch ::
  "'w leaderboard_env \<Rightarrow> js_error \<Rightarrow> NodeCache \<Rightarrow> ('w, call) rt \<Rightarrow> response \<times> NodeCache \<times> ('w, call) rt" where
  "GET_catch env error cache r =
     (case NodeCache_get (now env (world r)) (leaderboard_v7 cache) of
        (Some cachedLeaderboard, slot) \<Rightarrow>
          (Json (safeJson cachedLeaderboard), cache\<lparr>leaderboard_v7 := slot\<rparr>, r)
      | (None, slot) \<Rightarrow>
          (ErrorJson ''Failed to fetch leaderboard'' (Some ''Please try again later.'') 500,
           cache\<lparr>leaderboard_v7 := slot\<rparr>, r))"

definition GET ::
  "'w leaderboard_env \<Rightarrow> NodeCache \<Rightarrow> ('w, call) rt \<Rightarrow> response \<times> NodeCache \<times> ('w, call) rt" where
  "GET env cache r =
     (case NodeCache_get (now env (world r)) (leaderboard_v7 cache) of
        (Some cachedLeaderboard, slot) \<Rightarrow>
          (Json (safeJson cachedLeaderboard), cache\<lparr>leaderboard_v7 := slot\<rparr>, r)
      | (None, slot) \<Rightarrow>
          (case GET_try env (cache\<lparr>leaderboard_v7 := slot\<rparr>) r of
             (Inr resp, cache', r') \<Rightarrow> (resp, cache', r')
           | (Inl error, cache', r') \<Rightarrow> GET_catch env error cache' r'))"

section \<open>The winnings route: data and remote reads\<close>

text \<open>
  A value read from a loosely typed result (the route reads trade records
  and share balances as \<^verbatim>\<open>any\<close>): absent, \<^verbatim>\<open>null\<close>, a non-negative integer
  amount or handle (\<^verbatim>\<open>bigint\<close> or \<^verbatim>\<open>number\<close>), or anything else that is not a
  number.
\<close>

datatype js_value = Undefined | Null | Num nat | NonNumeric

text \<open>\<^verbatim>\<open>a ?? b\<close>.\<close>

definition nullish :: "js_value \<Rightarrow> js_value \<Rightarrow> js_value" where
  "nullish a b = (case a of Undefined \<Rightarrow> b | Null \<Rightarrow> b | _ \<Rightarrow> a)"

text \<open>\<^verbatim>\<open>Number(v)\<close>; \<open>None\<close> is \<^verbatim>\<open>NaN\<close>.\<close>

definition Number :: "js_value \<Rightarrow> nat option" where
  "Number v = (case v of Undefined \<Rightarrow> None | Null \<Rightarrow> Some 0 | Num n \<Rightarrow> Some n | NonNumeric \<Rightarrow> None)"

text \<open>\<^verbatim>\<open>toBigInt(v, def = 0n)\<close>: the amount, or the default for anything that
  is not one.\<close>

definition toBigInt :: "js_value \<Rightarrow> int" where
  "toBigInt v = (case v of Num n \<Rightarrow> int n | _ \<Rightarrow> 0)"

text \<open>A trade record, read as \<^verbatim>\<open>trade.marketId ?? trade[0]\<close> ("support both
  tuple and object").\<close>

record Trade =
  trade_marketId :: js_value
  trade_0 :: js_value

text \<open>
  \<^verbatim>\<open>getMarketBasicInfo\<close> (of its tuple the route reads \<^verbatim>\<open>basic[4]\<close>, the option
  count, \<^verbatim>\<open>basic[5]\<close>, resolved, and \<^verbatim>\<open>basic[7]\<close>, invalidated) and
  \<^verbatim>\<open>getMarketExtendedMeta\<close> (\<^verbatim>\<open>extended[0]\<close>, the winning option, and
  \<^verbatim>\<open>extended[1]\<close>, disputed).
\<close>

record MarketBasicInfo =
  optionCount :: nat
  resolved :: bool
  invalidated :: bool

record MarketExtendedMeta =
  winningOptionId :: js_value
  disputed :: bool

text \<open>\<^verbatim>\<open>interface UserWinnings { marketId; amount; hasWinnings }\<close>.\<close>

record UserWinnings =
  uw_marketId :: nat
  uw_amount :: int
  uw_hasWinnings :: bool

datatype ledger_call =
    UserTradeHistory string nat
  | MarketCount
  | PayoutPerShare
  | GetMarketBasicInfo nat
  | GetMarketExtendedMeta nat
  | GetMarketOptionUserShares nat int string
  | SimulateClaimWinnings nat string

text \<open>
  The reads of the generation-2 contract through \<^verbatim>\<open>publicClient.readContract\<close>
  and the dry run \<^verbatim>\<open>publicClient.simulateContract\<close> of \<^verbatim>\<open>claimWinnings\<close>.
  \<^verbatim>\<open>userTradeHistory\<close> returns \<open>None\<close> for a falsy record.
\<close>

record 'w ledger =
  userTradeHistory :: "string \<Rightarrow> nat \<Rightarrow> ('w, Trade option) remote_op"
  marketCount :: "('w, nat) remote_op"
  PAYOUT_PER_SHARE :: "('w, nat) remote_op"
  getMarketBasicInfo :: "nat \<Rightarrow> ('w, MarketBasicInfo) remote_op"
  getMarketExtendedMeta :: "nat \<Rightarrow> ('w, MarketExtendedMeta) remote_op"
  getMarketOptionUserShares :: "nat \<Rightarrow> int \<Rightarrow> string \<Rightarrow> ('w, js_value) remote_op"
  simulateClaimWinnings :: "nat \<Rightarrow> string \<Rightarrow> ('w, unit) remote_op"

section \<open>The winnings route: participation discovery\<close>

text \<open>
  \<^verbatim>\<open>readUserTradeHistory\<close>: \<^verbatim>\<open>while (index < maxAttempts)\<close> with
  \<^verbatim>\<open>maxAttempts = 100\<close>; a read that throws, or a falsy record, ends the loop.
\<close>

definition maxAttempts :: nat where
  "maxAttempts = 100"

function readUserTradeHistory_from ::
  "'w ledger \<Rightarrow> string \<Rightarrow> nat \<Rightarrow> Trade list \<Rightarrow> ('w, ledger_call) rt \<Rightarrow> Trade list \<times> ('w, ledger_call) rt" where
  "readUserTradeHistory_from env userAddress index trades r =
     (if index < maxAttempts then
        (case invoke (UserTradeHistory userAddress index) (userTradeHistory env userAddress index) r of
           (Inr (Some trade), r') \<Rightarrow>
             readUserTradeHistory_from env userAddress (Suc index) (trades @ [trade]) r'
         | (Inr None, r') \<Rightarrow> (trades, r')
         | (Inl error, r') \<Rightarrow> (trades, r'))
      else (trades, r))"
  by pat_completeness auto
termination
  by (relation "measure (\<lambda>(env, userAddress, index, trades, r). maxAttempts - index)") auto

declare readUserTradeHistory_from.simps [simp del]

definition readUserTradeHistory ::
  "'w ledger \<Rightarrow> string \<Rightarrow> ('w, ledger_call) rt \<Rightarrow> Trade list \<times> ('w, ledger_call) rt" where
  "readUserTradeHistory env userAddress r = readUserTradeHistory_from env userAddress 0 [] r"

text \<open>
  A JavaScript \<^verbatim>\<open>Set\<close> keeps its elements in insertion order;
  \<^verbatim>\<open>Array.from(set).sort((a, b) => a - b)\<close> then sorts them in ascending
  numeric order.
\<close>

definition Set_add :: "'a list \<Rightarrow> 'a \<Rightarrow> 'a list" where
  "Set_add s x = (if x \<in> set s then s else s @ [x])"

definition Set_of :: "'a list \<Rightarrow> 'a list" where
  "Set_of xs = foldl Set_add [] xs"

text \<open>The body of \<^verbatim>\<open>for (const trade of tradeHistory)\<close>.\<close>

definition addTradeMarket :: "nat list \<Rightarrow> Trade \<Rightarrow> nat list" where
  "addTradeMarket markets trade =
     (let marketIdRaw = nullish (trade_marketId trade) (trade_0 trade)
      in case Number marketIdRaw of None \<Rightarrow> markets | Some mId \<Rightarrow> Set_add markets mId)"

definition marketsOfTrades :: "Trade list \<Rightarrow> nat list" where
  "marketsOfTrades tradeHistory =
     (if tradeHistory = [] then [] else sort (foldl addTradeMarket [] tradeHistory))"

definition discoverUserMarketsFromTrades ::
  "'w ledger \<Rightarrow> string \<Rightarrow> ('w, ledger_call) rt \<Rightarrow> nat list \<times> ('w, ledger_call) rt" where
  "discoverUserMarketsFromTrades env userAddress r =
     (case readUserTradeHistory env userAddress r of
        (tradeHistory, r') \<Rightarrow> (marketsOfTrades tradeHistory, r'))"

text \<open>
  The option loop of the fallback scan,
  \<^verbatim>\<open>for (let option = 0; option < optionCount; option++)\<close>, over the option
  indices that remain. \<open>Inl\<close>: a share read threw (the market is then
  ignored); \<open>Inr participated\<close> otherwise.
\<close>

fun scanOptions ::
  "'w ledger \<Rightarrow> string \<Rightarrow> nat \<Rightarrow> nat list \<Rightarrow> ('w, ledger_call) rt \<Rightarrow> (js_error + bool) \<times> ('w, ledger_call) rt" where
  "scanOptions env userAddress marketId [] r = (Inr False, r)"
| "scanOptions env userAddress marketId (option # rest) r =
     (case invoke (GetMarketOptionUserShares marketId (int option) userAddress)
             (getMarketOptionUserShares env marketId (int option) userAddress) r of
        (Inl err, r') \<Rightarrow> (Inl err, r')
      | (Inr shares, r') \<Rightarrow>
          if toBigInt shares > 0 then (Inr True, r')
          else scanOptions env userAddress marketId rest r')"

text \<open>The body of the market loop of the fallback scan, with its
  \<^verbatim>\<open>try\<close>/\<^verbatim>\<open>catch\<close> ("ignore individual market errors").\<close>

definition scanMarket ::
  "'w ledger \<Rightarrow> string \<Rightarrow> nat list \<Rightarrow> nat \<Rightarrow> ('w, ledger_call) rt \<Rightarrow> nat list \<times> ('w, ledger_call) rt" where
  "scanMarket env userAddress markets marketId r =
     (case invoke (GetMarketBasicInfo marketId) (getMarketBasicInfo env marketId) r of
        (Inl err, r1) \<Rightarrow> (markets, r1)
      | (Inr basic, r1) \<Rightarrow>
          (case scanOptions env userAddress marketId [0..<optionCount basic] r1 of
             (Inl err, r2) \<Rightarrow> (markets, r2)
           | (Inr participated, r2) \<Rightarrow> (if participated then markets @ [marketId] else markets, r2)))"

text \<open>\<^verbatim>\<open>for (let marketId = 0; marketId < maxScan; marketId++)\<close>, over the handles
  that remain.\<close>

fun scanMarkets ::
  "'w ledger \<Rightarrow> string \<Rightarrow> nat list \<Rightarrow> nat list \<Rightarrow> ('w, ledger_call) rt \<Rightarrow> nat list \<times> ('w, ledger_call) rt" where
  "scanMarkets env userAddress markets [] r = (markets, r)"
| "scanMarkets env userAddress markets (marketId # rest) r =
     (case scanMarket env userAddress markets marketId r of
        (markets', r') \<Rightarrow> scanMarkets env userAddress markets' rest r')"

text \<open>
  \<^verbatim>\<open>fallbackScanParticipation\<close>. A failing read of the market count or of
  \<^verbatim>\<open>PAYOUT_PER_SHARE\<close> (read, then unused) is caught by the outer
  \<^verbatim>\<open>try\<close>/\<^verbatim>\<open>catch\<close>, and the scan returns what it has, which is nothing.
\<close>

definition fallbackScanParticipation ::
  "'w ledger \<Rightarrow> string \<Rightarrow> ('w, ledger_call) rt \<Rightarrow> nat list \<times> ('w, ledger_call) rt" where
  "fallbackScanParticipation env userAddress r =
     (case invoke MarketCount (marketCount env) r of
        (Inl e, r1) \<Rightarrow> ([], r1)
      | (Inr mCount, r1) \<Rightarrow>
          if mCount = 0 then ([], r1)
          else
            (case invoke PayoutPerShare (PAYOUT_PER_SHARE env) r1 of
               (Inl e, r2) \<Rightarrow> ([], r2)
             | (Inr PAYOUT, r2) \<Rightarrow>
                 (let maxScan = min mCount 300
                  in scanMarkets env userAddress [] [0..<maxScan] r2)))"

section \<open>The winnings route: claimability\<close>

text \<open>\<^verbatim>\<open>msg.includes(p)\<close>.\<close>

definition str_includes :: "string \<Rightarrow> string \<Rightarrow> bool" where
  "str_includes msg p = list_ex (\<lambda>i. take (length p) (drop i msg) = p) [0..<Suc (length msg)]"

text \<open>
  The outcome of the dry run as the flag \<^verbatim>\<open>claimable\<close>: set when the
  simulation succeeded; on a failure both branches on the message clear it.
\<close>

definition claimableOf :: "js_error + unit \<Rightarrow> bool" where
  "claimableOf sim =
     (case sim of
        Inr _ \<Rightarrow> True
      | Inl simError \<Rightarrow>
          (let msg = toLowerCase (message simError)
           in if str_includes msg ''alreadyclaimed'' \<or> str_includes msg ''nowinningshares''
              then False else False))"

text \<open>
  The body of \<^verbatim>\<open>for (const marketId of markets)\<close> in
  \<^verbatim>\<open>computeClaimableWinnings\<close>: every \<^verbatim>\<open>continue\<close> and the \<^verbatim>\<open>catch\<close> of the
  per-market \<^verbatim>\<open>try\<close> leave \<open>results\<close> as it is.
\<close>

definition claimMarket ::
  "'w ledger \<Rightarrow> string \<Rightarrow> int \<Rightarrow> UserWinnings list \<Rightarrow> nat \<Rightarrow> ('w, ledger_call) rt
     \<Rightarrow> UserWinnings list \<times> ('w, ledger_call) rt" where
  "claimMarket env userAddress payoutPerShare results marketId r =
     (case invoke (GetMarketBasicInfo marketId) (getMarketBasicInfo env marketId) r of
        (Inl err, r1) \<Rightarrow> (results, r1)
      | (Inr basic, r1) \<Rightarrow>
          if \<not> resolved basic \<or> invalidated basic then (results, r1)
          else
           (case invoke (GetMarketExtendedMeta marketId) (getMarketExtendedMeta env marketId) r1 of
              (Inl err, r2) \<Rightarrow> (results, r2)
            | (Inr extended, r2) \<Rightarrow>
                if disputed extended then (results, r2)
                else
                 (case invoke (GetMarketOptionUserShares marketId (toBigInt (winningOptionId extended)) userAddress)
                         (getMarketOptionUserShares env marketId (toBigInt (winningOptionId extended)) userAddress)
                         r2 of
                    (Inl err, r3) \<Rightarrow> (results, r3)
                  | (Inr userShares, r3) \<Rightarrow>
                      if toBigInt userShares = 0 then (results, r3)
                      else
                       (case invoke (SimulateClaimWinnings marketId userAddress)
                               (simulateClaimWinnings env marketId userAddress) r3 of
                          (sim, r4) \<Rightarrow>
                            if \<not> claimableOf sim then (results, r4)
                            else
                             (let amount = (toBigInt userShares * payoutPerShare) div 10 ^ 18
                              in (if amount > 0
                                  then results @ [\<lparr>uw_marketId = marketId, uw_amount = amount, uw_hasWinnings = True\<rparr>]
                                  else results,
                                  r4))))))"

fun claimMarkets ::
  "'w ledger \<Rightarrow> string \<Rightarrow> int \<Rightarrow> UserWinnings list \<Rightarrow> nat list \<Rightarrow> ('w, ledger_call) rt
     \<Rightarrow> UserWinnings list \<times> ('w, ledger_call) rt" where
  "claimMarkets env userAddress payoutPerShare results [] r = (results, r)"
| "claimMarkets env userAddress payoutPerShare results (marketId # rest) r =
     (case claimMarket env userAddress payoutPerShare results marketId r of
        (results', r') \<Rightarrow> claimMarkets env userAddress payoutPerShare results' rest r')"

text \<open>
  \<^verbatim>\<open>computeClaimableWinnings\<close>: the payout constant is read once, with the
  fallback \<^verbatim>\<open>100n * 10n ** 18n\<close> when the read fails.
\<close>

definition computeClaimableWinnings ::
  "'w ledger \<Rightarrow> string \<Rightarrow> nat list \<Rightarrow> ('w, ledger_call) rt \<Rightarrow> UserWinnings list \<times> ('w, ledger_call) rt" where
  "computeClaimableWinnings env userAddress markets r =
     (if markets = [] then ([], r)
      else
        (case invoke PayoutPerShare (PAYOUT_PER_SHARE env) r of
           (res, r1) \<Rightarrow>
             (let payoutPerShare = (case res of Inr p \<Rightarrow> int p | Inl _ \<Rightarrow> 100 * 10 ^ 18)
              in claimMarkets env userAddress payoutPerShare [] markets r1)))"

section \<open>The winnings route: \<^verbatim>\<open>POST\<close>\<close>

datatype post_response =
    PostOk (participatedMarkets: "nat list") (winningsData: "UserWinnings list")
           (totalMarkets: nat) (claimableMarkets: nat)
  | PostError string nat

text \<open>
  The steps of \<^verbatim>\<open>POST\<close> that find \<^verbatim>\<open>participatedMarkets\<close>: the trade history,
  the fallback scan if it gave nothing, then "deduplicate and sort".
\<close>

definition discoverParticipation ::
  "'w ledger \<Rightarrow> string \<Rightarrow> ('w, ledger_call) rt \<Rightarrow> nat list \<times> ('w, ledger_call) rt" where
  "discoverParticipation env userAddress r =
     (case discoverUserMarketsFromTrades env userAddress r of
        (fromTrades, r1) \<Rightarrow>
          (case (if length fromTrades = 0 then fallbackScanParticipation env userAddress r1
                 else (fromTrades, r1)) of
             (found, r2) \<Rightarrow> (sort (Set_of found), r2)))"

text \<open>
  \<^verbatim>\<open>POST\<close>. The body is the outcome of \<^verbatim>\<open>await request.json()\<close>: an error it
  threw, or the \<^verbatim>\<open>userAddress\<close> field, \<open>None\<close> when it is missing. After the
  body is read nothing throws out of the three steps: every remote read is
  caught where it is made. The response is built by \<^verbatim>\<open>NextResponse.json\<close>, which
  serialises its argument with \<^verbatim>\<open>JSON.stringify\<close>. The \<^verbatim>\<open>amount\<close> of a record of
  \<^verbatim>\<open>winningsData\<close> is a \<^verbatim>\<open>bigint\<close>, on which \<^verbatim>\<open>JSON.stringify\<close> throws a
  \<^verbatim>\<open>TypeError\<close>: with a record in \<^verbatim>\<open>winningsData\<close> the throw is caught by the
  \<^verbatim>\<open>catch\<close> of the route, which answers the error with status 500. With no
  record the response carries the two lists and their lengths,
  \<^verbatim>\<open>totalMarkets\<close> and \<^verbatim>\<open>claimableMarkets\<close>.
\<close>

definition serializeBigInt :: js_error where
  "serializeBigInt = JsError None ''Do not know how to serialize a BigInt''"

definition POST ::
  "'w ledger \<Rightarrow> js_error + string option \<Rightarrow> ('w, ledger_call) rt \<Rightarrow> post_response \<times> ('w, ledger_call) rt" where
  "POST env body r =
     (case body of
        Inl error \<Rightarrow> (PostError (''Failed to auto-discover user markets: '' @ message error) 500, r)
      | Inr None \<Rightarrow> (PostError ''User address is required'' 400, r)
      | Inr (Some userAddress) \<Rightarrow>
          if userAddress = [] then (PostError ''User address is required'' 400, r)
          else
            (case discoverParticipation env userAddress r of
               (markets, r1) \<Rightarrow>
                 (case computeClaimableWinnings env userAddress markets r1 of
                    (data, r2) \<Rightarrow>
                      if data \<noteq> []
                      then (PostError (''Failed to auto-discover user markets: '' @ message serializeBigInt) 500, r2)
                      else (PostOk markets data (length markets) (length data), r2))))"

section \<open>Notions used to state the properties\<close>

text \<open>The key of an entry in \<^verbatim>\<open>combinedEntries\<close>: its case-normalised address.\<close>

definition walletKey :: "ChainEntry \<Rightarrow> string" where
  "walletKey e = toLowerCase (user e)"

text \<open>Every key occurs once, and is the case-normalised address of its entry.\<close>

definition keyed :: "(string, ChainEntry) js_map \<Rightarrow> bool" where
  "keyed m = (distinct (map fst m) \<and> (\<forall>(k, e) \<in> set m. k = walletKey e))"

text \<open>
  A ranked leaderboard: at most ten entries, in descending order of their
  display amounts.
\<close>

definition ranked :: "LeaderboardEntry list \<Rightarrow> bool" where
  "ranked lb = (length lb \<le> 10 \<and> sorted_wrt (\<lambda>a b. winnings b \<le> winnings a) lb)"




text \<open>
  The offsets \<open>0, PAGE_SIZE, 2 * PAGE_SIZE, \<dots>\<close> below a participants count, and
  the reading of the pages at given offsets in order, a page whose read fails
  after its retries ending it with that error.
\<close>

definition pageOffsets :: "nat \<Rightarrow> nat list" where
  "pageOffsets totalV1 = map (\<lambda>k. k * PAGE_SIZE) [0..<(totalV1 + PAGE_SIZE - 1) div PAGE_SIZE]"

fun readPages ::
  "'w leaderboard_env \<Rightarrow> nat list \<Rightarrow> ChainEntry list \<Rightarrow> ('w, call) rt
     \<Rightarrow> (js_error + ChainEntry list) \<times> ('w, call) rt" where
  "readPages env [] entries r = (Inr entries, r)"
| "readPages env (start # rest) entries r =
     (case withRetry3 (setTimeout env) (GetLeaderboard start PAGE_SIZE)
             (getLeaderboard env start PAGE_SIZE) r of
        (Inl error, r') \<Rightarrow> (Inl error, r')
      | (Inr batch, r') \<Rightarrow> readPages env rest (entries @ batch) r')"

text \<open>
  What makes a position claimable, read off the ledger from state \<open>r\<close> on: the
  market's status reads resolved and not invalidated, its metadata not
  disputed, the wallet's balance in the winning option is not zero, and the
  dry run of the claim succeeds.
\<close>

definition verified :: "'w ledger \<Rightarrow> string \<Rightarrow> nat \<Rightarrow> ('w, ledger_call) rt \<Rightarrow> bool" where
  "verified env userAddress m r =
     (case invoke (GetMarketBasicInfo m) (getMarketBasicInfo env m) r of
        (Inl _, _) \<Rightarrow> False
      | (Inr basic, r1) \<Rightarrow>
          resolved basic \<and> \<not> invalidated basic \<and>
          (case invoke (GetMarketExtendedMeta m) (getMarketExtendedMeta env m) r1 of
             (Inl _, _) \<Rightarrow> False
           | (Inr extended, r2) \<Rightarrow>
               \<not> disputed extended \<and>
               (case invoke (GetMarketOptionUserShares m (toBigInt (winningOptionId extended)) userAddress)
                       (getMarketOptionUserShares env m (toBigInt (winningOptionId extended)) userAddress) r2 of
                  (Inl _, _) \<Rightarrow> False
                | (Inr userShares, r3) \<Rightarrow>
                    toBigInt userShares \<noteq> 0 \<and>
                    (case invoke (SimulateClaimWinnings m userAddress)
                            (simulateClaimWinnings env m userAddress) r3 of
                       (Inl _, _) \<Rightarrow> False
                     | (Inr _, _) \<Rightarrow> True))))"






section \<open>Concrete worlds\<close>

text \<open>
  An operation on a world that counts its invocations: the first hits the
  rate limit, the second fails otherwise, the third returns.
\<close>

definition flaky :: "(nat, nat) remote_op" where
  "flaky w = (if w = 0 then Inl (JsError (Some 429) ''rate limited'')
              else if w = 1 then Inl (JsError (Some 503) ''unavailable'')
              else Inr (w * 7), Suc w)"

text \<open>
  A world whose state is the clock in milliseconds. The token has 2
  decimals; generation 1 lists three wallets on one page; generation 2 has two
  participants, and reading its participant index past them reverts; the
  identity service knows one of the wallets. The merged amounts that it ranks
  (20000, 900 and 700) are multiples of \<open>10 ^ 2\<close> below \<open>2 ^ 53\<close>, for which the
  double that the runtime computes is the exact quotient; \<open>numberOverPow10\<close> is
  given as that quotient.
\<close>

definition demo_env :: "nat leaderboard_env" where
  "demo_env =
     \<lparr>NEYNAR_API_KEY = Some ''key'',
      numberOverPow10 = (\<lambda>x d. real_of_int x / 10 ^ d),
      now = (\<lambda>w. w),
      setTimeout = (\<lambda>d w. w + nat d),
      decimals = (\<lambda>w. (Inr 2, w)),
      getAllParticipantsCount = (\<lambda>w. (Inr 3, w)),
      getLeaderboard = (\<lambda>start size w.
         (Inr (if start = 0
               then [\<lparr>user = ''0xAbC1'', totalWinnings = 15000, voteCount = 4\<rparr>,
                     \<lparr>user = ''0xD2'', totalWinnings = 0, voteCount = 1\<rparr>,
                     \<lparr>user = ''0xF4'', totalWinnings = 700, voteCount = 2\<rparr>]
               else []), w)),
      allParticipants = (\<lambda>i w.
         (if i = 0 then Inr ''0xabc1'' else if i = 1 then Inr ''0xE3''
          else Inl (JsError None ''execution reverted''), w)),
      userPortfolios = (\<lambda>a w.
         (Inr (if a = ''0xabc1'' then (0, 5000, 0, 0, 3) else (0, 900, 0, 0, 2)), w)),
      fetchBulkUsersByEthOrSolAddress = (\<lambda>addresses w.
         (Inr [(''0xABC1'', [NeynarRawUser ''alice'' 7 None])], w))\<rparr>"


text \<open>The leaderboard of that world.\<close>

definition demo_leaderboard :: "LeaderboardEntry list" where
  "demo_leaderboard =
     [\<lparr>username = ''alice'', fid = ''7'', pfp_url = None, winnings = 200,
       entry_voteCount = 7, address = ''0xabc1''\<rparr>,
      \<lparr>username = ''0xe3...0xe3'', fid = ''nil'', pfp_url = None, winnings = 9,
       entry_voteCount = 2, address = ''0xe3''\<rparr>,
      \<lparr>username = ''0xf4...0xf4'', fid = ''nil'', pfp_url = None, winnings = 7,
       entry_voteCount = 2, address = ''0xf4''\<rparr>]"

text \<open>
  Variants of that world: one without the identity-service credential, one
  whose token contract cannot be read, one whose generation-1 pages each hold
  a single entry.
\<close>

definition keyless_env :: "nat leaderboard_env" where
  "keyless_env = demo_env\<lparr>NEYNAR_API_KEY := None\<rparr>"

definition outage_env :: "nat leaderboard_env" where
  "outage_env = demo_env\<lparr>decimals := (\<lambda>w. (Inl (JsError (Some 503) ''upstream unavailable''), w))\<rparr>"

definition short_pages_env :: "nat leaderboard_env" where
  "short_pages_env =
     demo_env\<lparr>getLeaderboard := (\<lambda>start size w.
        (Inr [\<lparr>user = ''0xA1'', totalWinnings = int start + 1, voteCount = 1\<rparr>], w))\<rparr>"

text \<open>
  A ledger with ten markets, all resolved but market 6; reading the status
  of market 5 times out; market 7 is disputed; the claim of market 9 has been
  made already. Wallet \<open>0xU1\<close> traded in markets 3, 7 and 3 again; wallet \<open>0xU2\<close>
  in markets 9, 4, 5 and 6; wallet \<open>0xU3\<close> has no trade history and holds shares
  of market 6.
\<close>

definition demo_ledger :: "unit ledger" where
  "demo_ledger =
     \<lparr>userTradeHistory = (\<lambda>userAddress index w.
        (if userAddress = ''0xU1'' \<and> index = 0 then Inr (Some \<lparr>trade_marketId = Num 3, trade_0 = Undefined\<rparr>)
         else if userAddress = ''0xU1'' \<and> index = 1 then Inr (Some \<lparr>trade_marketId = Undefined, trade_0 = Num 7\<rparr>)
         else if userAddress = ''0xU1'' \<and> index = 2 then Inr (Some \<lparr>trade_marketId = Num 3, trade_0 = Undefined\<rparr>)
         else if userAddress = ''0xU2'' \<and> index = 0 then Inr (Some \<lparr>trade_marketId = Num 9, trade_0 = Undefined\<rparr>)
         else if userAddress = ''0xU2'' \<and> index = 1 then Inr (Some \<lparr>trade_marketId = Num 4, trade_0 = Undefined\<rparr>)
         else if userAddress = ''0xU2'' \<and> index = 2 then Inr (Some \<lparr>trade_marketId = Num 5, trade_0 = Undefined\<rparr>)
         else if userAddress = ''0xU2'' \<and> index = 3 then Inr (Some \<lparr>trade_marketId = Num 6, trade_0 = Undefined\<rparr>)
         else Inl (JsError None ''execution reverted''), w)),
      marketCount = (\<lambda>w. (Inr 10, w)),
      PAYOUT_PER_SHARE = (\<lambda>w. (Inr (100 * 10 ^ 18), w)),
      getMarketBasicInfo = (\<lambda>m w.
        (if m = 5 then Inl (JsError None ''request timed out'')
         else Inr \<lparr>optionCount = 2, resolved = (m \<noteq> 6), invalidated = False\<rparr>, w)),
      getMarketExtendedMeta = (\<lambda>m w.
        (Inr \<lparr>winningOptionId = Num (if m = 4 then 1 else 0), disputed = (m = 7)\<rparr>, w)),
      getMarketOptionUserShares = (\<lambda>m option userAddress w.
        (Inr (if userAddress = ''0xU1'' \<and> m = 3 \<and> option = 0 then Num (10 ^ 18)
              else if userAddress = ''0xU1'' \<and> m = 7 \<and> option = 0 then Num (10 ^ 18)
              else if userAddress = ''0xU2'' \<and> m = 4 \<and> option = 1 then Num (2 * 10 ^ 18)
              else if userAddress = ''0xU2'' \<and> m = 9 \<and> option = 0 then Num (10 ^ 18)
              else if userAddress = ''0xU2'' \<and> m = 6 \<and> option = 0 then Num (10 ^ 18)
              else if userAddress = ''0xU3'' \<and> m = 6 \<and> option = 1 then Num 5
              else Num 0), w)),
      simulateClaimWinnings = (\<lambda>m userAddress w.
        (if m = 9 then Inl (JsError None ''The contract function reverted: AlreadyClaimed()'')
         else Inr (), w))\<rparr>"

section \<open>Properties of \<^verbatim>\<open>withRetry\<close>\<close>

lemma invoke_cases:
  "invoke tag fn r = (res, r') \<Longrightarrow>
     fn (world r) = (res, world r') \<and>
     trace r' = trace r @ [Invoked tag (case res of Inl e \<Rightarrow> Some e | Inr v \<Rightarrow> None)]"
  by (auto simp: invoke_def split: prod.splits sum.splits)

text \<open>
  The loop entered at index \<open>i\<close> below \<open>retries\<close>: some attempts fail and are
  each followed by their delay, then one last attempt gives the result.
\<close>

lemma withRetry_from_trace:
  "i < retries \<Longrightarrow> withRetry_from i wait tag fn retries d r = (res, r') \<Longrightarrow>
     \<exists>errs w. length errs < retries - i \<and>
       trace r' = trace r @ backoff_events tag d i errs
                    @ [Invoked tag (case res of Inl e \<Rightarrow> Some e | Inr v \<Rightarrow> None)] \<and>
       fn w = (res, world r') \<and>
       (case res of Inr v \<Rightarrow> True | Inl e \<Rightarrow> i + Suc (length errs) = retries)"
proof (induction i wait tag fn retries d r rule: withRetry_from.induct)
  case (1 i wait tag fn retries d r)
  obtain a r1 where inv: "invoke tag fn r = (a, r1)" by (cases "invoke tag fn r")
  note ic = invoke_cases [OF inv]
  show ?case
  proof (cases a)
    case (Inr v)
    with 1 inv have "res = Inr v" "r' = r1"
      by (simp_all add: withRetry_from.simps [of i])
    with ic Inr 1(2) show ?thesis
      by (intro exI [of _ "[]"] exI [of _ "world r"]) simp
  next
    case (Inl e)
    show ?thesis
    proof (cases "Suc i = retries")
      case True
      with 1 inv Inl have "res = Inl e" "r' = r1"
        by (simp_all add: withRetry_from.simps [of i])
      with ic Inl True show ?thesis
        by (intro exI [of _ "[]"] exI [of _ "world r"]) simp
    next
      case False
      let ?r2 = "sleep wait (retryDelay d i e) r1"
      from 1(2) False have lt: "Suc i < retries" by simp
      from 1(2,3) inv Inl False
      have run: "withRetry_from (Suc i) wait tag fn retries d ?r2 = (res, r')"
        by (simp add: withRetry_from.simps [of i])
      from "1.IH" [OF 1(2) inv [symmetric] Inl False lt run]
      obtain errs w where IH: "length errs < retries - Suc i"
        "trace r' = trace ?r2 @ backoff_events tag d (Suc i) errs
                    @ [Invoked tag (case res of Inl e \<Rightarrow> Some e | Inr v \<Rightarrow> None)]"
        "fn w = (res, world r')"
        "(case res of Inr v \<Rightarrow> True | Inl e \<Rightarrow> Suc i + Suc (length errs) = retries)"
        by blast
      have tr: "trace ?r2 = trace r @ [Invoked tag (Some e), Slept (retryDelay d i e)]"
        using ic Inl by (simp add: sleep_def)
      show ?thesis
        using IH tr lt
        by (intro exI [of _ "e # errs"] exI [of _ w]) (auto simp: retryDelay_def split: sum.splits)
    qed
  qed
qed

lemma invocations_backoff_events:
  "length (filter is_Invoked (backoff_events tag d i errs)) = length errs"
  by (induction errs arbitrary: i) auto

text \<open>
  C7. For a retry count \<open>n \<ge> 1\<close>, a run of \<^verbatim>\<open>withRetry\<close> adds to the trace some
  failed invocations \<open>errs\<close>, fewer than \<open>n\<close>, each followed by its delay, and one
  last invocation: \<open>op\<close> is invoked \<open>length errs + 1 \<le> n\<close> times. The delay after
  the failed attempt number \<open>i\<close> (from 0) is \<open>d * 2^i\<close>, raised to at least 10000
  when the error carries status 429. The result and the final world are what
  the last invocation gave: the value of the first invocation that succeeded,
  or, when the result is an error, the error of attempt number \<open>n\<close>, all \<open>n\<close>
  attempts having failed.
\<close>

theorem withRetry_attempts_backoff:
  assumes "1 \<le> n" and "withRetry wait tag op n d r = (res, r')"
  shows "\<exists>errs w. length errs < n \<and>
           trace r' = trace r @ backoff_events tag d 0 errs
                        @ [Invoked tag (case res of Inl e \<Rightarrow> Some e | Inr v \<Rightarrow> None)] \<and>
           op w = (res, world r') \<and>
           (case res of Inr v \<Rightarrow> True | Inl e \<Rightarrow> Suc (length errs) = n) \<and>
           length (filter is_Invoked (drop (length (trace r)) (trace r'))) = Suc (length errs)"
proof -
  from assms have "0 < n" "withRetry_from 0 wait tag op n d r = (res, r')"
    by (simp_all add: withRetry_def)
  from withRetry_from_trace [OF this]
  obtain errs w where *: "length errs < n"
    "trace r' = trace r @ backoff_events tag d 0 errs
                  @ [Invoked tag (case res of Inl e \<Rightarrow> Some e | Inr v \<Rightarrow> None)]"
    "op w = (res, world r')"
    "(case res of Inr v \<Rightarrow> True | Inl e \<Rightarrow> 0 + Suc (length errs) = n)"
    by auto
  have "length (filter is_Invoked (drop (length (trace r)) (trace r'))) = Suc (length errs)"
    by (simp add: *(2) invocations_backoff_events)
  with * show ?thesis
    by (intro exI [of _ errs] exI [of _ w]) (auto split: sum.splits)
qed

lemma flaky_run:
  "withRetry (\<lambda>d w. w) ''op'' flaky 3 2000 \<lparr>world = 0, trace = []\<rparr> =
       (Inr 14, \<lparr>world = 3, trace =
          [Invoked ''op'' (Some (JsError (Some 429) ''rate limited'')), Slept 10000,
           Invoked ''op'' (Some (JsError (Some 503) ''unavailable'')), Slept 4000,
           Invoked ''op'' None]\<rparr>)"
  by (simp add: withRetry_def withRetry_from.simps invoke_def sleep_def retryDelay_def flaky_def)

theorem withRetry_attempts_backoff_witness:
  "(1::nat) \<le> 3 \<and>
   withRetry (\<lambda>d w. w) ''op'' flaky 3 2000 \<lparr>world = 0, trace = []\<rparr> =
       (Inr 14, \<lparr>world = 3, trace =
          [Invoked ''op'' (Some (JsError (Some 429) ''rate limited'')), Slept 10000,
           Invoked ''op'' (Some (JsError (Some 503) ''unavailable'')), Slept 4000,
           Invoked ''op'' None]\<rparr>) \<and>
   (\<exists>errs w. length errs < 3 \<and>
      [Invoked ''op'' (Some (JsError (Some 429) ''rate limited'')), Slept 10000,
       Invoked ''op'' (Some (JsError (Some 503) ''unavailable'')), Slept 4000,
       Invoked ''op'' None]
        = backoff_events ''op'' 2000 0 errs @ [Invoked ''op'' None] \<and>
      flaky w = (Inr 14, 3))"
proof -
  have n: "(1::nat) \<le> 3" by simp
  from withRetry_attempts_backoff [OF n flaky_run]
  show ?thesis using flaky_run by auto
qed

section \<open>Properties of the merge of the two generations\<close>

lemma Map_get_set: "Map_get (Map_set k v m) k' = (if k' = k then Some v else Map_get m k')"
  by (induction m) auto

lemma keys_Map_set: "fst ` set (Map_set k v m) = insert k (fst ` set m)"
proof (induction m)
  case Nil
  then show ?case by simp
next
  case (Cons p m)
  obtain k' v' where p: "p = (k', v')" by (cases p)
  show ?case
  proof (cases "k' = k")
    case True
    with p show ?thesis by simp
  next
    case False
    with p Cons show ?thesis by (simp add: insert_commute)
  qed
qed

lemma distinct_Map_set: "distinct (map fst m) \<Longrightarrow> distinct (map fst (Map_set k v m))"
proof (induction m)
  case Nil
  then show ?case by simp
next
  case (Cons p m)
  obtain k' v' where p: "p = (k', v')" by (cases p)
  show ?case
  proof (cases "k' = k")
    case True
    with p Cons.prems show ?thesis by simp
  next
    case False
    with p Cons show ?thesis by (simp add: keys_Map_set)
  qed
qed

lemma set_Map_set: "set (Map_set k v m) \<subseteq> insert (k, v) (set m)"
  by (induction m) (auto split: if_splits)

lemma find_snoc:
  "find P (xs @ [x]) = (case find P xs of Some y \<Rightarrow> Some y | None \<Rightarrow> if P x then Some x else None)"
  by (induction xs) auto

lemma find_None_key: "a \<notin> f ` set xs \<Longrightarrow> find (\<lambda>e. f e = a) xs = None"
  by (induction xs) auto

lemma addV1_get:
  "Map_get (addV1 m x) a = (if a = walletKey x then Some x else Map_get m a)"
  by (simp add: addV1_def walletKey_def Map_get_set Let_def)

lemma addV2_get:
  "Map_get (addV2 m x) a =
     (if a = walletKey x
      then (case Map_get m a of
              Some e1 \<Rightarrow> Some \<lparr>user = user x, totalWinnings = totalWinnings e1 + totalWinnings x,
                               voteCount = voteCount e1 + voteCount x\<rparr>
            | None \<Rightarrow> Some x)
      else Map_get m a)"
  by (simp add: addV2_def walletKey_def Map_get_set Let_def split: option.splits)

lemma foldl_addV1_get:
  "distinct (map walletKey v1) \<Longrightarrow>
     Map_get (foldl addV1 [] v1) a = find (\<lambda>e. walletKey e = a) v1"
proof (induction v1 rule: rev_induct)
  case Nil
  then show ?case by simp
next
  case (snoc x xs)
  then show ?case
    by (auto simp: addV1_get find_snoc find_None_key split: option.splits)
qed

lemma foldl_addV2_get:
  "distinct (map walletKey v2) \<Longrightarrow>
     Map_get (foldl addV2 m v2) a =
       (case find (\<lambda>e. walletKey e = a) v2 of
          None \<Rightarrow> Map_get m a
        | Some e2 \<Rightarrow>
            (case Map_get m a of
               Some e1 \<Rightarrow> Some \<lparr>user = user e2, totalWinnings = totalWinnings e1 + totalWinnings e2,
                                voteCount = voteCount e1 + voteCount e2\<rparr>
             | None \<Rightarrow> Some e2))"
proof (induction v2 rule: rev_induct)
  case Nil
  then show ?case by simp
next
  case (snoc x xs)
  then show ?case
    by (auto simp: addV2_get find_snoc find_None_key split: option.splits)
qed

lemma keyed_Map_set: "keyed m \<Longrightarrow> k = walletKey v \<Longrightarrow> keyed (Map_set k v m)"
  using set_Map_set [of k v m] by (auto simp: keyed_def distinct_Map_set)

lemma keyed_addV1: "keyed m \<Longrightarrow> keyed (addV1 m x)"
  by (simp add: addV1_def Let_def keyed_Map_set walletKey_def)

lemma keyed_addV2: "keyed m \<Longrightarrow> keyed (addV2 m x)"
  by (simp add: addV2_def Let_def keyed_Map_set walletKey_def split: option.splits)

lemma keyed_foldl_addV1: "keyed m \<Longrightarrow> keyed (foldl addV1 m xs)"
  by (induction xs arbitrary: m) (auto simp: keyed_addV1)

lemma keyed_foldl_addV2: "keyed m \<Longrightarrow> keyed (foldl addV2 m xs)"
  by (induction xs arbitrary: m) (auto simp: keyed_addV2)

lemma keyed_combineEntries: "keyed (combineEntries v1 v2)"
  unfolding combineEntries_def
  by (intro keyed_foldl_addV2 keyed_foldl_addV1) (simp add: keyed_def)

text \<open>
  C3. Each generation listing a wallet once (under its case-normalised
  address), the merged map holds for a wallet of both generations the sum of
  the two winnings and the sum of the two counts; for a wallet of one
  generation only, that generation's entry as it is; nothing for any other
  address. The map is keyed by the case-normalised address, each key once.
\<close>

theorem combineEntries_sums:
  assumes "distinct (map walletKey entriesV1)" and "distinct (map walletKey entriesV2)"
  shows "Map_get (combineEntries entriesV1 entriesV2) a =
           (case (find (\<lambda>e. walletKey e = a) entriesV1, find (\<lambda>e. walletKey e = a) entriesV2) of
              (Some e1, Some e2) \<Rightarrow>
                Some \<lparr>user = user e2, totalWinnings = totalWinnings e1 + totalWinnings e2,
                      voteCount = voteCount e1 + voteCount e2\<rparr>
            | (Some e1, None) \<Rightarrow> Some e1
            | (None, Some e2) \<Rightarrow> Some e2
            | (None, None) \<Rightarrow> None)
         \<and> keyed (combineEntries entriesV1 entriesV2)"
  using assms
  by (simp add: combineEntries_def foldl_addV2_get foldl_addV1_get keyed_combineEntries [unfolded combineEntries_def]
           split: option.splits)

theorem combineEntries_sums_witness:
  "distinct (map walletKey
      [\<lparr>user = ''0xAbC1'', totalWinnings = 100, voteCount = 4\<rparr>,
       \<lparr>user = ''0xD2'', totalWinnings = 7, voteCount = 1\<rparr>]) \<and>
   distinct (map walletKey
      [\<lparr>user = ''0xabc1'', totalWinnings = 50, voteCount = 3\<rparr>,
       \<lparr>user = ''0xE3'', totalWinnings = 9, voteCount = 2\<rparr>]) \<and>
   Map_get (combineEntries
      [\<lparr>user = ''0xAbC1'', totalWinnings = 100, voteCount = 4\<rparr>,
       \<lparr>user = ''0xD2'', totalWinnings = 7, voteCount = 1\<rparr>]
      [\<lparr>user = ''0xabc1'', totalWinnings = 50, voteCount = 3\<rparr>,
       \<lparr>user = ''0xE3'', totalWinnings = 9, voteCount = 2\<rparr>]) ''0xabc1''
     = Some \<lparr>user = ''0xabc1'', totalWinnings = 150, voteCount = 7\<rparr>"
proof -
  let ?v1 = "[\<lparr>user = ''0xAbC1'', totalWinnings = 100, voteCount = 4\<rparr>,
              \<lparr>user = ''0xD2'', totalWinnings = 7, voteCount = 1\<rparr>]"
  let ?v2 = "[\<lparr>user = ''0xabc1'', totalWinnings = 50, voteCount = 3\<rparr>,
              \<lparr>user = ''0xE3'', totalWinnings = 9, voteCount = 2\<rparr>]"
  have d1: "distinct (map walletKey ?v1)" by code_simp
  have d2: "distinct (map walletKey ?v2)" by code_simp
  have f1: "find (\<lambda>e. walletKey e = ''0xabc1'') ?v1
              = Some \<lparr>user = ''0xAbC1'', totalWinnings = 100, voteCount = 4\<rparr>"
    by code_simp
  have f2: "find (\<lambda>e. walletKey e = ''0xabc1'') ?v2
              = Some \<lparr>user = ''0xabc1'', totalWinnings = 50, voteCount = 3\<rparr>"
    by code_simp
  from combineEntries_sums [OF d1 d2, of "''0xabc1''"] f1 f2
  have "Map_get (combineEntries ?v1 ?v2) ''0xabc1''
          = Some \<lparr>user = ''0xabc1'', totalWinnings = 150, voteCount = 7\<rparr>"
    by simp
  with d1 d2 show ?thesis by blast
qed

section \<open>Properties of the ranking\<close>

lemma safeJson_id: "safeJson lb = lb"
  by (simp add: safeJson_def)




lemma sorted_buildLeaderboard:
  "sorted_wrt (\<lambda>a b. winnings b \<le> winnings a) (buildLeaderboard users ws)"
proof -
  let ?xs = "sort_key (\<lambda>e. - winnings e) (map (buildEntry users) ws)"
  have "sorted (map (\<lambda>e. - winnings e) ?xs)" by (rule sorted_sort_key)
  then have "sorted_wrt (\<lambda>a b. winnings b \<le> winnings a) ?xs"
    by (simp add: sorted_map)
  then show ?thesis
    unfolding buildLeaderboard_def by (rule sorted_wrt_take)
qed

lemma ranked_buildLeaderboard: "ranked (buildLeaderboard users ws)"
  unfolding ranked_def
proof
  show "length (buildLeaderboard users ws) \<le> 10"
    by (simp add: buildLeaderboard_def)
  show "sorted_wrt (\<lambda>a b. winnings b \<le> winnings a) (buildLeaderboard users ws)"
    by (rule sorted_buildLeaderboard)
qed

lemma GET_try_outcome:
  assumes "GET_try env cache r = (res, cache', r')"
  shows "case res of
           Inr (Json lb) \<Rightarrow> ranked lb \<and> (\<exists>t. leaderboard_v7 cache' = Some (lb, t))
         | _ \<Rightarrow> leaderboard_v7 cache' = leaderboard_v7 cache"
  using assms
  by (auto simp: GET_try_def Let_def safeJson_id ranked_buildLeaderboard NodeCache_set_def
           split: if_splits prod.splits sum.splits option.splits)

lemma NodeCache_get_cases:
  "NodeCache_get t s = (res, s') \<Longrightarrow>
     (res = None \<and> s' = None) \<or> (\<exists>v e. res = Some v \<and> s = Some (v, e) \<and> s' = s)"
  by (auto simp: NodeCache_get_def split: option.splits if_splits)





lemma leaderboard_v7_update_same:
  "leaderboard_v7 cache = s \<Longrightarrow> cache\<lparr>leaderboard_v7 := s\<rparr> = cache"
  by (cases cache) auto














section \<open>A concrete aggregation\<close>

















section \<open>Properties of the cache paths of \<^verbatim>\<open>GET\<close>\<close>

text \<open>
  C10. When the cache holds an unexpired entry under the leaderboard key
  (no expiry, or an expiry time not before the current time), \<^verbatim>\<open>GET\<close> answers
  with that entry and leaves the cache, the world and the trace as they were:
  nothing is invoked. This holds for every environment, so also for one
  without the identity-service credential.
\<close>

theorem GET_cache_hit:
  assumes "leaderboard_v7 cache = Some (lb, t)" and "t = 0 \<or> now env (world r) \<le> t"
  shows "GET env cache r = (Json lb, cache, r)"
proof -
  from assms have g: "NodeCache_get (now env (world r)) (leaderboard_v7 cache) = (Some lb, leaderboard_v7 cache)"
    by (auto simp: NodeCache_get_def)
  have "cache\<lparr>leaderboard_v7 := leaderboard_v7 cache\<rparr> = cache"
    by (simp add: leaderboard_v7_update_same)
  with g show ?thesis by (simp add: GET_def safeJson_id)
qed

theorem GET_cache_hit_witness:
  "NEYNAR_API_KEY keyless_env = None \<and>
   leaderboard_v7 \<lparr>leaderboard_v7 = Some (demo_leaderboard, 3600000), neynar_users_v7 = None\<rparr>
     = Some (demo_leaderboard, 3600000) \<and>
   ((3600000::nat) = 0 \<or>
      now keyless_env (world \<lparr>world = 1000, trace = [] :: call event list\<rparr>) \<le> 3600000) \<and>
   GET keyless_env \<lparr>leaderboard_v7 = Some (demo_leaderboard, 3600000), neynar_users_v7 = None\<rparr>
       \<lparr>world = 1000, trace = []\<rparr>
     = (Json demo_leaderboard,
        \<lparr>leaderboard_v7 = Some (demo_leaderboard, 3600000), neynar_users_v7 = None\<rparr>,
        \<lparr>world = 1000, trace = []\<rparr>)"
proof -
  let ?c = "\<lparr>leaderboard_v7 = Some (demo_leaderboard, 3600000), neynar_users_v7 = None\<rparr>"
  let ?r = "\<lparr>world = (1000::nat), trace = ([] :: call event list)\<rparr>"
  have k: "NEYNAR_API_KEY keyless_env = None" by (simp add: keyless_env_def)
  have h: "leaderboard_v7 ?c = Some (demo_leaderboard, 3600000)" by simp
  have u: "(3600000::nat) = 0 \<or> now keyless_env (world ?r) \<le> 3600000"
    by (simp add: keyless_env_def demo_env_def)
  from GET_cache_hit [OF h u] k h u show ?thesis by blast
qed

text \<open>The credential is looked at once the cache has missed.\<close>

lemma GET_miss_without_key:
  assumes "fst (NodeCache_get (now env (world r)) (leaderboard_v7 cache)) = None"
      and "NEYNAR_API_KEY env = None"
  shows "fst (GET env cache r) = ErrorJson ''Server configuration error: Missing NEYNAR_API_KEY'' None 500"
  using assms by (auto simp: GET_def GET_try_def split: prod.splits option.splits)

text \<open>
  A refresh that throws after a miss: the slot was found empty or expired
  (and an expired key is deleted by the lookup), the \<^verbatim>\<open>try\<close> block stores a
  leaderboard only as its last step, so the lookup of the \<^verbatim>\<open>catch\<close> block
  misses too and the answer is the error.
\<close>

lemma GET_refresh_failure:
  assumes "fst (NodeCache_get (now env (world r)) (leaderboard_v7 cache)) = None"
      and "GET_try env (cache\<lparr>leaderboard_v7 := None\<rparr>) r = (Inl e, cache1, r1)"
  shows "fst (GET env cache r) = ErrorJson ''Failed to fetch leaderboard'' (Some ''Please try again later.'') 500"
proof -
  obtain res slot where g: "NodeCache_get (now env (world r)) (leaderboard_v7 cache) = (res, slot)"
    by (cases "NodeCache_get (now env (world r)) (leaderboard_v7 cache)")
  with assms(1) NodeCache_get_cases [OF g] have miss: "res = None" "slot = None" by auto
  from GET_try_outcome [OF assms(2)] have "leaderboard_v7 cache1 = None" by simp
  with g miss assms(2) show ?thesis
    by (simp add: GET_def GET_catch_def NodeCache_get_def)
qed

text \<open>
  C1. The leaderboard is stored at time 0 with the standard TTL, so it
  expires at 3600000 ms. A request at 3600001 ms whose refresh fails (the
  token contract cannot be read, three attempts) is answered with the error
  response and the entry is gone from the cache: the last value is not served
  past its expiry.
\<close>

theorem GET_stale_entry_not_served:
  "NodeCache_set 0 demo_leaderboard stdTTL = Some (demo_leaderboard, 3600000) \<and>
   GET outage_env \<lparr>leaderboard_v7 = NodeCache_set 0 demo_leaderboard stdTTL, neynar_users_v7 = None\<rparr>
       \<lparr>world = 3600001, trace = []\<rparr>
     = (ErrorJson ''Failed to fetch leaderboard'' (Some ''Please try again later.'') 500,
        \<lparr>leaderboard_v7 = None, neynar_users_v7 = None\<rparr>,
        \<lparr>world = 3606001,
         trace = [Invoked Decimals (Some (JsError (Some 503) ''upstream unavailable'')), Slept 2000,
                  Invoked Decimals (Some (JsError (Some 503) ''upstream unavailable'')), Slept 4000,
                  Invoked Decimals (Some (JsError (Some 503) ''upstream unavailable''))]\<rparr>)"
  by (simp add: GET_def GET_try_def GET_catch_def NodeCache_get_def NodeCache_set_def stdTTL_def
        outage_env_def demo_env_def withRetry3_def withRetry_def withRetry_from.simps invoke_def
        sleep_def retryDelay_def)

section \<open>Properties of the generation-1 paging\<close>

text \<open>
  C5, as stated, fails: with a participants count of 250 and pages that each
  return a single entry (fewer than the 100 requested), the loop does not stop
  at the first short page; it reads the pages at offsets 0, 100 and 200.
\<close>

theorem fetchV1_reads_past_short_page:
  "fetchV1_from short_pages_env 250 0 [] \<lparr>world = 0, trace = []\<rparr> =
     (Inr [\<lparr>user = ''0xA1'', totalWinnings = 1, voteCount = 1\<rparr>,
           \<lparr>user = ''0xA1'', totalWinnings = 101, voteCount = 1\<rparr>,
           \<lparr>user = ''0xA1'', totalWinnings = 201, voteCount = 1\<rparr>],
      \<lparr>world = 0,
       trace = [Invoked (GetLeaderboard 0 100) None, Invoked (GetLeaderboard 100 100) None,
                Invoked (GetLeaderboard 200 100) None]\<rparr>)"
  by (simp add: fetchV1_from.simps PAGE_SIZE_def short_pages_env_def demo_env_def
        withRetry3_def withRetry_def withRetry_from.simps invoke_def)

lemma fetchV1_from_page:
  "fetchV1_from env totalV1 (k * PAGE_SIZE) entries r =
     readPages env (map (\<lambda>j. j * PAGE_SIZE) [k..<(totalV1 + PAGE_SIZE - 1) div PAGE_SIZE]) entries r"
proof (induction "(totalV1 + PAGE_SIZE - 1) div PAGE_SIZE - k" arbitrary: k entries r)
  case 0
  then have "\<not> k * PAGE_SIZE < totalV1"
    by (simp add: PAGE_SIZE_def; presburger)
  with 0 show ?case by (simp add: fetchV1_from.simps [of _ _ "k * PAGE_SIZE"])
next
  case (Suc n)
  then have lt: "k < (totalV1 + PAGE_SIZE - 1) div PAGE_SIZE" by simp
  then have "k * PAGE_SIZE < totalV1"
    by (simp add: PAGE_SIZE_def; presburger)
  moreover from Suc have "n = (totalV1 + PAGE_SIZE - 1) div PAGE_SIZE - Suc k" by simp
  note Suc.hyps(1) [OF this]
  moreover have "k * PAGE_SIZE + PAGE_SIZE = Suc k * PAGE_SIZE" by simp
  ultimately show ?case
    using lt
    by (simp add: fetchV1_from.simps [of _ _ "k * PAGE_SIZE"] upt_conv_Cons
             split: prod.splits sum.splits del: mult_Suc)
qed

text \<open>
  C5, amended. The generation-1 loop reads the pages of size \<open>PAGE_SIZE\<close> at
  the offsets \<open>0, PAGE_SIZE, 2 * PAGE_SIZE, \<dots>\<close> below the participants count,
  whatever number of entries the pages return; only a page read that fails
  after its retries ends it early, with that error.
\<close>

theorem fetchV1_pages_by_count:
  "fetchV1_from env totalParticipantsV1 0 [] r = readPages env (pageOffsets totalParticipantsV1) [] r"
  using fetchV1_from_page [of env totalParticipantsV1 0 "[]" r]
  by (simp add: pageOffsets_def)


section \<open>Properties of the claimability check\<close>

lemma claimableOf_iff: "claimableOf sim \<longleftrightarrow> \<not> isl sim"
  by (cases sim) (simp_all add: claimableOf_def Let_def)

lemma claimMarket_cases:
  assumes "claimMarket env u p results m r = (results', r')"
  shows "results' = results \<or>
         (verified env u m r \<and>
          (\<exists>amt. 0 < amt \<and> results' = results @ [\<lparr>uw_marketId = m, uw_amount = amt, uw_hasWinnings = True\<rparr>]))"
  using assms
  by (auto simp: claimMarket_def verified_def claimableOf_iff Let_def
           split: prod.splits sum.splits if_splits)






lemma claimMarkets_sound:
  "w \<in> set (fst (claimMarkets env u p results ms r)) \<Longrightarrow>
     w \<in> set results \<or>
     (uw_hasWinnings w \<and> 0 < uw_amount w \<and> uw_marketId w \<in> set ms \<and>
      (\<exists>r0. verified env u (uw_marketId w) r0))"
proof (induction ms arbitrary: results r)
  case Nil
  then show ?case by simp
next
  case (Cons m ms)
  obtain results' r' where c: "claimMarket env u p results m r = (results', r')"
    by (cases "claimMarket env u p results m r")
  with Cons.prems have "w \<in> set (fst (claimMarkets env u p results' ms r'))" by simp
  from Cons.IH [OF this] claimMarket_cases [OF c]
  show ?case by auto
qed

lemma verified_reads_resolved:
  "verified env u m r0 \<Longrightarrow>
     \<exists>b. fst (getMarketBasicInfo env m (world r0)) = Inr b \<and> resolved b \<and> \<not> invalidated b"
  by (auto simp: verified_def invoke_def split: prod.splits sum.splits)

lemma computeClaimableWinnings_claimMarkets:
  "markets \<noteq> [] \<Longrightarrow>
     \<exists>p r1. computeClaimableWinnings env u markets r = claimMarkets env u p [] markets r1"
  by (auto simp: computeClaimableWinnings_def Let_def split: prod.splits)

lemma computeClaimableWinnings_Nil: "fst (computeClaimableWinnings env u [] r) = []"
  by (simp add: computeClaimableWinnings_def)


text \<open>
  C2. Every record in the output of \<^verbatim>\<open>computeClaimableWinnings\<close> carries the
  flag set, a positive amount and the handle of one of the markets given, and
  that market was verified: at some state its status read resolved and not
  invalidated, its metadata not disputed, the wallet's winning-option balance
  not zero, and the dry run of the claim succeeded. In particular its status
  does not read unresolved on every read: a market that does never appears.
\<close>

theorem computeClaimableWinnings_sound:
  assumes "w \<in> set (fst (computeClaimableWinnings env u markets r))"
  shows "uw_hasWinnings w \<and> 0 < uw_amount w \<and> uw_marketId w \<in> set markets \<and>
         (\<exists>r0. verified env u (uw_marketId w) r0) \<and>
         (\<exists>w0 b. fst (getMarketBasicInfo env (uw_marketId w) w0) = Inr b \<and> resolved b \<and> \<not> invalidated b)"
proof (cases "markets = []")
  case True
  with assms show ?thesis by (simp add: computeClaimableWinnings_Nil)
next
  case False
  from computeClaimableWinnings_claimMarkets [OF False, of env u r] assms
  obtain p r1 where "w \<in> set (fst (claimMarkets env u p [] markets r1))" by auto
  from claimMarkets_sound [OF this]
  have s: "uw_hasWinnings w" "0 < uw_amount w" "uw_marketId w \<in> set markets"
    and v: "\<exists>r0. verified env u (uw_marketId w) r0" by auto
  from v verified_reads_resolved obtain b w0 where
    "fst (getMarketBasicInfo env (uw_marketId w) w0) = Inr b" "resolved b" "\<not> invalidated b" by blast
  with s v show ?thesis by blast
qed


text \<open>
  The answer of \<^verbatim>\<open>POST\<close> to a wallet address: the two lists when no position
  is claimable, the error of the serialisation with status 500 when one is.
\<close>

lemma POST_answers:
  assumes "a \<noteq> []"
      and "discoverParticipation env a r = (markets, r1)"
      and "computeClaimableWinnings env a markets r1 = (data, r2)"
  shows "POST env (Inr (Some a)) r =
           (if data = [] then (PostOk markets [] (length markets) 0, r2)
            else (PostError ''Failed to auto-discover user markets: Do not know how to serialize a BigInt'' 500, r2))"
  using assms by (simp add: POST_def serializeBigInt_def)


section \<open>A concrete ledger\<close>

lemmas eval_congs = prod.case_cong_weak sum.case_cong_weak option.case_cong_weak

lemmas demo_ledger_reads =
  demo_ledger_def [THEN arg_cong [of _ _ userTradeHistory], simplified]
  demo_ledger_def [THEN arg_cong [of _ _ marketCount], simplified]
  demo_ledger_def [THEN arg_cong [of _ _ PAYOUT_PER_SHARE], simplified]
  demo_ledger_def [THEN arg_cong [of _ _ getMarketBasicInfo], simplified]
  demo_ledger_def [THEN arg_cong [of _ _ getMarketExtendedMeta], simplified]
  demo_ledger_def [THEN arg_cong [of _ _ getMarketOptionUserShares], simplified]
  demo_ledger_def [THEN arg_cong [of _ _ simulateClaimWinnings], simplified]

lemma upts: "[0..<10] = [0, 1, 2, 3, 4, 5, 6, 7, 8, 9]" "[0..<2] = [0, 1]"
  by code_simp+

lemmas ledger_simps = demo_ledger_reads invoke_def POST_def serializeBigInt_def discoverParticipation_def
  discoverUserMarketsFromTrades_def readUserTradeHistory_def readUserTradeHistory_from.simps
  maxAttempts_def marketsOfTrades_def addTradeMarket_def nullish_def Number_def Set_add_def Set_of_def
  fallbackScanParticipation_def scanMarket_def computeClaimableWinnings_def claimMarket_def
  claimableOf_def toBigInt_def Let_def upts

text \<open>
  Wallets \<open>0xU1\<close> and \<open>0xU2\<close> each have a claimable position, and \<^verbatim>\<open>POST\<close> answers
  them with status 500; wallet \<open>0xU3\<close> has none and is answered with its
  markets.
\<close>

lemma demo_U1_markets:
  "fst (discoverParticipation demo_ledger ''0xU1'' \<lparr>world = (), trace = []\<rparr>) = [3, 7]"
  by (simp add: ledger_simps cong: eval_congs)

lemma demo_U1_winnings:
  "fst (computeClaimableWinnings demo_ledger ''0xU1'' [3, 7] r) =
     [\<lparr>uw_marketId = 3, uw_amount = 100 * 10 ^ 18, uw_hasWinnings = True\<rparr>]"
  by (simp add: ledger_simps cong: eval_congs)

lemma demo_U1:
  "fst (POST demo_ledger (Inr (Some ''0xU1'')) \<lparr>world = (), trace = []\<rparr>) =
     PostError ''Failed to auto-discover user markets: Do not know how to serialize a BigInt'' 500"
  by (simp add: ledger_simps cong: eval_congs)

lemma demo_U2_markets:
  "fst (discoverParticipation demo_ledger ''0xU2'' \<lparr>world = (), trace = []\<rparr>) = [4, 5, 6, 9]"
  by (simp add: ledger_simps cong: eval_congs)

lemma demo_U2_winnings:
  "fst (computeClaimableWinnings demo_ledger ''0xU2'' [4, 5, 6, 9] r) =
     [\<lparr>uw_marketId = 4, uw_amount = 200 * 10 ^ 18, uw_hasWinnings = True\<rparr>]"
  by (simp add: ledger_simps cong: eval_congs)

lemma demo_U2:
  "fst (POST demo_ledger (Inr (Some ''0xU2'')) \<lparr>world = (), trace = []\<rparr>) =
     PostError ''Failed to auto-discover user markets: Do not know how to serialize a BigInt'' 500"
  by (simp add: ledger_simps cong: eval_congs)

lemma demo_U3:
  "fst (POST demo_ledger (Inr (Some ''0xU3'')) \<lparr>world = (), trace = []\<rparr>) = PostOk [6] [] 1 0"
  by (simp add: ledger_simps cong: eval_congs)


lemma demo_U1_history:
  "fst (readUserTradeHistory demo_ledger ''0xU1'' \<lparr>world = (), trace = []\<rparr>) =
     [\<lparr>trade_marketId = Num 3, trade_0 = Undefined\<rparr>,
      \<lparr>trade_marketId = Undefined, trade_0 = Num 7\<rparr>,
      \<lparr>trade_marketId = Num 3, trade_0 = Undefined\<rparr>]"
  by (simp add: ledger_simps cong: eval_congs)

theorem computeClaimableWinnings_sound_witness:
  "fst (computeClaimableWinnings demo_ledger ''0xU2'' [4, 5, 6, 9] \<lparr>world = (), trace = []\<rparr>) =
     [\<lparr>uw_marketId = 4, uw_amount = 200 * 10 ^ 18, uw_hasWinnings = True\<rparr>] \<and>
   (4::nat) \<in> set [4, 5, 6, 9] \<and>
   (\<exists>r0. verified demo_ledger ''0xU2'' 4 r0) \<and>
   (\<exists>w0 b. fst (getMarketBasicInfo demo_ledger 4 w0) = Inr b \<and> resolved b \<and> \<not> invalidated b)"
proof -
  let ?w = "\<lparr>uw_marketId = 4, uw_amount = 200 * 10 ^ 18, uw_hasWinnings = True\<rparr>"
  let ?r = "\<lparr>world = (), trace = [] :: ledger_call event list\<rparr>"
  have run: "fst (computeClaimableWinnings demo_ledger ''0xU2'' [4, 5, 6, 9] ?r) = [?w]"
    by (rule demo_U2_winnings)
  then have m: "?w \<in> set (fst (computeClaimableWinnings demo_ledger ''0xU2'' [4, 5, 6, 9] ?r))"
    by simp
  from computeClaimableWinnings_sound [OF m] run show ?thesis by simp
qed




section \<open>Properties of the participation discovery\<close>

lemma distinct_Set_add: "distinct s \<Longrightarrow> distinct (Set_add s x)"
  by (simp add: Set_add_def)

lemma distinct_Set_of: "distinct (Set_of xs)"
proof -
  have "distinct acc \<Longrightarrow> distinct (foldl Set_add acc xs)" for acc
    by (induction xs arbitrary: acc) (simp_all add: distinct_Set_add)
  then show ?thesis by (simp add: Set_of_def)
qed

lemma distinct_addTradeMarket: "distinct ms \<Longrightarrow> distinct (addTradeMarket ms t)"
  by (simp add: addTradeMarket_def Let_def distinct_Set_add split: option.splits)

lemma distinct_foldl_addTradeMarket: "distinct acc \<Longrightarrow> distinct (foldl addTradeMarket acc ts)"
  by (induction ts arbitrary: acc) (simp_all add: distinct_addTradeMarket)

lemma marketsOfTrades_ascending: "sorted_wrt (<) (marketsOfTrades ts)"
  by (simp add: marketsOfTrades_def strict_sorted_iff distinct_foldl_addTradeMarket)

lemma discoverParticipation_result:
  "fst (discoverParticipation env u r) =
     sort (Set_of (if fst (discoverUserMarketsFromTrades env u r) = []
                   then fst (fallbackScanParticipation env u (snd (discoverUserMarketsFromTrades env u r)))
                   else fst (discoverUserMarketsFromTrades env u r)))"
  by (simp add: discoverParticipation_def split: prod.splits)

lemma marketsOfTrades_3_7_3:
  assumes "map (\<lambda>t. Number (nullish (trade_marketId t) (trade_0 t))) ts = [Some 3, Some 7, Some 3]"
  shows "marketsOfTrades ts = [3, 7]"
proof -
  from assms obtain a b c where ts: "ts = [a, b, c]"
    and n: "Number (nullish (trade_marketId a) (trade_0 a)) = Some 3"
      "Number (nullish (trade_marketId b) (trade_0 b)) = Some 7"
      "Number (nullish (trade_marketId c) (trade_0 c)) = Some 3"
    by (auto simp: map_eq_Cons_conv)
  then show ?thesis
    by (simp add: marketsOfTrades_def addTradeMarket_def Set_add_def Let_def)
qed

lemma set_Set_add: "set (Set_add s x) = insert x (set s)"
  by (auto simp: Set_add_def)

lemma set_foldl_Set_add: "set (foldl Set_add acc xs) = set acc \<union> set xs"
  by (induction xs arbitrary: acc) (auto simp: set_Set_add)

lemma set_Set_of: "set (Set_of xs) = set xs"
  by (simp add: Set_of_def set_foldl_Set_add)

lemma set_foldl_addTradeMarket:
  "set (foldl addTradeMarket acc ts) =
     set acc \<union> {m. Some m \<in> (\<lambda>t. Number (nullish (trade_marketId t) (trade_0 t))) ` set ts}"
proof (induction ts arbitrary: acc)
  case Nil
  then show ?case by simp
next
  case (Cons t ts)
  have "set (addTradeMarket acc t) =
          set acc \<union> {m. Number (nullish (trade_marketId t) (trade_0 t)) = Some m}"
    by (auto simp: addTradeMarket_def Let_def set_Set_add split: option.splits)
  with Cons [of "addTradeMarket acc t"] show ?case by auto
qed

lemma set_marketsOfTrades:
  "set (marketsOfTrades ts) =
     {m. Some m \<in> (\<lambda>t. Number (nullish (trade_marketId t) (trade_0 t))) ` set ts}"
  by (simp add: marketsOfTrades_def set_foldl_addTradeMarket)

text \<open>
  C6. The markets that discovery returns, from the trade history or from the
  fallback scan, are in strictly ascending order of handle, so without
  duplicates; a trade history referencing markets 3, 7 and 3 gives exactly
  3 and 7. The handles returned are those that the trade history references,
  or those that the fallback scan found, each once.
\<close>

theorem discoverParticipation_ascending:
  "sorted_wrt (<) (fst (discoverParticipation env userAddress r)) \<and>
   sorted_wrt (<) (fst (discoverUserMarketsFromTrades env userAddress r)) \<and>
   (map (\<lambda>t. Number (nullish (trade_marketId t) (trade_0 t)))
        (fst (readUserTradeHistory env userAddress r)) = [Some 3, Some 7, Some 3] \<longrightarrow>
      fst (discoverUserMarketsFromTrades env userAddress r) = [3, 7] \<and>
      fst (discoverParticipation env userAddress r) = [3, 7]) \<and>
   set (fst (discoverUserMarketsFromTrades env userAddress r)) =
     {m. Some m \<in> (\<lambda>t. Number (nullish (trade_marketId t) (trade_0 t))) `
                      set (fst (readUserTradeHistory env userAddress r))} \<and>
   set (fst (discoverParticipation env userAddress r)) =
     set (if fst (discoverUserMarketsFromTrades env userAddress r) = []
          then fst (fallbackScanParticipation env userAddress
                      (snd (discoverUserMarketsFromTrades env userAddress r)))
          else fst (discoverUserMarketsFromTrades env userAddress r))"
proof (intro conjI impI)
  show "sorted_wrt (<) (fst (discoverParticipation env userAddress r))"
    by (simp add: discoverParticipation_result strict_sorted_iff distinct_Set_of)
  show d: "sorted_wrt (<) (fst (discoverUserMarketsFromTrades env userAddress r))"
    by (simp add: discoverUserMarketsFromTrades_def marketsOfTrades_ascending split: prod.splits)
  show "set (fst (discoverUserMarketsFromTrades env userAddress r)) =
     {m. Some m \<in> (\<lambda>t. Number (nullish (trade_marketId t) (trade_0 t))) `
                      set (fst (readUserTradeHistory env userAddress r))}"
    by (simp add: discoverUserMarketsFromTrades_def case_prod_beta set_marketsOfTrades)
  show "set (fst (discoverParticipation env userAddress r)) =
     set (if fst (discoverUserMarketsFromTrades env userAddress r) = []
          then fst (fallbackScanParticipation env userAddress
                      (snd (discoverUserMarketsFromTrades env userAddress r)))
          else fst (discoverUserMarketsFromTrades env userAddress r))"
    by (simp only: discoverParticipation_result set_sort set_Set_of)
  assume "map (\<lambda>t. Number (nullish (trade_marketId t) (trade_0 t)))
            (fst (readUserTradeHistory env userAddress r)) = [Some 3, Some 7, Some 3]"
  from marketsOfTrades_3_7_3 [OF this]
  show t: "fst (discoverUserMarketsFromTrades env userAddress r) = [3, 7]"
    by (simp add: discoverUserMarketsFromTrades_def case_prod_beta)
  show "fst (discoverParticipation env userAddress r) = [3, 7]"
    by (simp add: discoverParticipation_result t Set_of_def Set_add_def)
qed

theorem discoverParticipation_ascending_witness:
  "map (\<lambda>t. Number (nullish (trade_marketId t) (trade_0 t)))
        (fst (readUserTradeHistory demo_ledger ''0xU1'' \<lparr>world = (), trace = []\<rparr>))
     = [Some 3, Some 7, Some 3] \<and>
   fst (discoverParticipation demo_ledger ''0xU1'' \<lparr>world = (), trace = []\<rparr>) = [3, 7]"
proof -
  have h: "map (\<lambda>t. Number (nullish (trade_marketId t) (trade_0 t)))
        (fst (readUserTradeHistory demo_ledger ''0xU1'' \<lparr>world = (), trace = []\<rparr>))
     = [Some 3, Some 7, Some 3]"
    by (simp add: demo_U1_history nullish_def Number_def)
  with discoverParticipation_ascending [of demo_ledger "''0xU1''" "\<lparr>world = (), trace = []\<rparr>"]
  show ?thesis by blast
qed

text \<open>
  The fallback scan: it runs only after an empty result of the trade history,
  and the handles it returns are below the cap of 300.
\<close>

lemma fallback_only_after_empty_history:
  assumes "fst (discoverUserMarketsFromTrades env u r) \<noteq> []"
  shows "discoverParticipation env u r =
           (sort (Set_of (fst (discoverUserMarketsFromTrades env u r))),
            snd (discoverUserMarketsFromTrades env u r))"
  using assms by (simp add: discoverParticipation_def case_prod_beta)

lemma scanMarkets_subset:
  "set (fst (scanMarkets env u markets ms r)) \<subseteq> set markets \<union> set ms"
proof (induction ms arbitrary: markets r)
  case Nil
  then show ?case by simp
next
  case (Cons m ms)
  obtain markets' r' where s: "scanMarket env u markets m r = (markets', r')"
    by (cases "scanMarket env u markets m r")
  then have "set markets' \<subseteq> insert m (set markets)"
    by (auto simp: scanMarket_def split: prod.splits sum.splits if_splits)
  with Cons [of markets' r'] s show ?case by auto
qed

lemma fallback_scan_capped:
  "m \<in> set (fst (fallbackScanParticipation env u r)) \<Longrightarrow> m < 300"
  using scanMarkets_subset [of env u "[]"]
  by (fastforce simp: fallbackScanParticipation_def Let_def split: prod.splits sum.splits if_splits)

text \<open>
  C4. Wallet \<open>0xU3\<close> has no trade history, so the fallback scan runs. Market 6
  is not resolved, and the wallet holds shares of its option 1: the scan, which
  does not look at the status it has read, returns market 6.
\<close>

theorem fallback_includes_unresolved_market:
  "fst (discoverUserMarketsFromTrades demo_ledger ''0xU3'' \<lparr>world = (), trace = []\<rparr>) = [] \<and>
   fst (getMarketBasicInfo demo_ledger 6 ()) = Inr \<lparr>optionCount = 2, resolved = False, invalidated = False\<rparr> \<and>
   fst (discoverParticipation demo_ledger ''0xU3'' \<lparr>world = (), trace = []\<rparr>) = [6]"
  by (simp add: ledger_simps cong: eval_congs)

end
